theory Spec2Isabelle
  imports Complex_Main "HOL-Library.Sublist"
begin

section \<open>Python values at the boundary of the program\<close>

text \<open>
  The program is a single Python file (\<^verbatim>\<open>src/main.py\<close>). Its decision logic is
  \<^verbatim>\<open>calculate_distance\<close>, \<^verbatim>\<open>read_qr_code\<close> and the body of \<^verbatim>\<open>student_app\<close>; the
  attendance records are also touched by the edit form of \<^verbatim>\<open>edit_attendance\<close>.

  A Python float is a finite double, given by the real number it denotes, or one of the
  three IEEE special values. What the machine computes on finite floats is not fixed
  here: it is a parameter, the record \<open>fparith\<close>. Addition, subtraction, multiplication
  and division return the rounding \<open>fp_round\<close> of the exact result, which is a float or,
  on overflow, an infinity; \<^verbatim>\<open>math.sqrt\<close>, \<^verbatim>\<open>math.sin\<close>, \<^verbatim>\<open>math.cos\<close>, \<^verbatim>\<open>math.atan2\<close>
  and \<^verbatim>\<open>x ** 2\<close> return what the C library returns; \<open>fp_deg\<close> is the constant
  \<^verbatim>\<open>pi / 180\<close> of \<^verbatim>\<open>math.radians\<close>. The rules for NaN and the infinities are those of
  IEEE 754 and of the \<^verbatim>\<open>math\<close> module, which raises \<^verbatim>\<open>ValueError\<close> (math domain error)
  where noted. The two zeros are not told apart.
\<close>

datatype pyfloat = Fin real | NaN | PInf | NInf

datatype exn =
    ValueError | TypeError | KeyError | OverflowError
  | InterfaceError | IntegrityError | JSONDecodeError | Cv2Error | OtherError

record fparith =
  fp_round :: "real \<Rightarrow> pyfloat"
  fp_sqrt :: "real \<Rightarrow> real"
  fp_sin :: "real \<Rightarrow> real"
  fp_cos :: "real \<Rightarrow> real"
  fp_atan2 :: "real \<Rightarrow> real \<Rightarrow> real"
  fp_pow2 :: "real \<Rightarrow> real"
  fp_deg :: real

definition ebind :: "exn + 'a \<Rightarrow> ('a \<Rightarrow> exn + 'b) \<Rightarrow> exn + 'b" where
  "ebind m f = (case m of Inl e \<Rightarrow> Inl e | Inr x \<Rightarrow> f x)"

fun is_nan :: "pyfloat \<Rightarrow> bool" where
  "is_nan NaN = True"
| "is_nan _ = False"


fun is_fin :: "pyfloat \<Rightarrow> bool" where
  "is_fin (Fin a) = True"
| "is_fin _ = False"

text \<open>The sign of a non-NaN float, and the infinity (or NaN for 0) with a given sign.\<close>

fun sign_of :: "pyfloat \<Rightarrow> real" where
  "sign_of (Fin a) = sgn a"
| "sign_of PInf = 1"
| "sign_of NInf = - 1"
| "sign_of NaN = 0"

definition inf_signed :: "real \<Rightarrow> pyfloat" where
  "inf_signed s = (if s > 0 then PInf else if s < 0 then NInf else NaN)"

fun py_neg :: "pyfloat \<Rightarrow> pyfloat" where
  "py_neg (Fin a) = Fin (- a)"
| "py_neg NaN = NaN"
| "py_neg PInf = NInf"
| "py_neg NInf = PInf"

fun py_add :: "fparith \<Rightarrow> pyfloat \<Rightarrow> pyfloat \<Rightarrow> pyfloat" where
  "py_add fp NaN _ = NaN"
| "py_add fp _ NaN = NaN"
| "py_add fp (Fin a) (Fin b) = fp_round fp (a + b)"
| "py_add fp (Fin a) y = y"
| "py_add fp x (Fin b) = x"
| "py_add fp PInf PInf = PInf"
| "py_add fp NInf NInf = NInf"
| "py_add fp PInf NInf = NaN"
| "py_add fp NInf PInf = NaN"

definition py_sub :: "fparith \<Rightarrow> pyfloat \<Rightarrow> pyfloat \<Rightarrow> pyfloat" where
  "py_sub fp x y = py_add fp x (py_neg y)"

definition py_mul :: "fparith \<Rightarrow> pyfloat \<Rightarrow> pyfloat \<Rightarrow> pyfloat" where
  "py_mul fp x y =
     (if is_nan x \<or> is_nan y then NaN
      else case (x, y) of
             (Fin a, Fin b) \<Rightarrow> fp_round fp (a * b)
           | _ \<Rightarrow> inf_signed (sign_of x * sign_of y))"

text \<open>
  \<^verbatim>\<open>x / 2\<close> and \<^verbatim>\<open>x ** 2\<close>. The square is taken of values of \<^verbatim>\<open>math.sin\<close> only, on
  which it does not overflow.
\<close>

fun py_half :: "fparith \<Rightarrow> pyfloat \<Rightarrow> pyfloat" where
  "py_half fp (Fin a) = fp_round fp (a / 2)"
| "py_half fp x = x"

fun py_sq :: "fparith \<Rightarrow> pyfloat \<Rightarrow> pyfloat" where
  "py_sq fp (Fin a) = Fin (fp_pow2 fp a)"
| "py_sq fp NaN = NaN"
| "py_sq fp _ = PInf"

text \<open>\<^verbatim>\<open>x <= y\<close>: exact on the values, and every comparison with NaN is false.\<close>

fun py_le :: "pyfloat \<Rightarrow> pyfloat \<Rightarrow> bool" where
  "py_le NaN _ = False"
| "py_le _ NaN = False"
| "py_le (Fin a) (Fin b) = (a \<le> b)"
| "py_le NInf _ = True"
| "py_le _ PInf = True"
| "py_le _ _ = False"

text \<open>\<^verbatim>\<open>math.radians(x)\<close> is \<^verbatim>\<open>x * (pi / 180)\<close>.\<close>

definition radians :: "fparith \<Rightarrow> pyfloat \<Rightarrow> pyfloat" where
  "radians fp x = py_mul fp x (Fin (fp_deg fp))"

fun math_sin :: "fparith \<Rightarrow> pyfloat \<Rightarrow> exn + pyfloat" where
  "math_sin fp (Fin a) = Inr (Fin (fp_sin fp a))"
| "math_sin fp NaN = Inr NaN"
| "math_sin fp _ = Inl ValueError"

fun math_cos :: "fparith \<Rightarrow> pyfloat \<Rightarrow> exn + pyfloat" where
  "math_cos fp (Fin a) = Inr (Fin (fp_cos fp a))"
| "math_cos fp NaN = Inr NaN"
| "math_cos fp _ = Inl ValueError"

fun math_sqrt :: "fparith \<Rightarrow> pyfloat \<Rightarrow> exn + pyfloat" where
  "math_sqrt fp (Fin a) = (if a < 0 then Inl ValueError else Inr (Fin (fp_sqrt fp a)))"
| "math_sqrt fp NaN = Inr NaN"
| "math_sqrt fp PInf = Inr PInf"
| "math_sqrt fp NInf = Inl ValueError"

text \<open>
  \<^verbatim>\<open>math.atan2\<close> never raises; at infinite arguments it returns the float nearest to the
  angle that C99 prescribes.
\<close>

fun math_atan2 :: "fparith \<Rightarrow> pyfloat \<Rightarrow> pyfloat \<Rightarrow> pyfloat" where
  "math_atan2 fp NaN _ = NaN"
| "math_atan2 fp _ NaN = NaN"
| "math_atan2 fp (Fin y) (Fin x) = Fin (fp_atan2 fp y x)"
| "math_atan2 fp (Fin y) PInf = Fin 0"
| "math_atan2 fp (Fin y) NInf = fp_round fp (if 0 \<le> y then pi else - pi)"
| "math_atan2 fp PInf (Fin x) = fp_round fp (pi / 2)"
| "math_atan2 fp NInf (Fin x) = fp_round fp (- (pi / 2))"
| "math_atan2 fp PInf PInf = fp_round fp (pi / 4)"
| "math_atan2 fp PInf NInf = fp_round fp (3 * pi / 4)"
| "math_atan2 fp NInf PInf = fp_round fp (- (pi / 4))"
| "math_atan2 fp NInf NInf = fp_round fp (- (3 * pi / 4))"

section \<open>GeoMath: \<^verbatim>\<open>calculate_distance\<close>\<close>

text \<open>
  \<^verbatim>\<open>
  def calculate_distance(lat1, lon1, lat2, lon2):
      R = 6371000
      phi1 = math.radians(lat1)
      phi2 = math.radians(lat2)
      delta_phi = math.radians(lat2 - lat1)
      delta_lambda = math.radians(lon2 - lon1)
      a = math.sin(delta_phi/2)**2 + math.cos(phi1) * math.cos(phi2) * math.sin(delta_lambda/2)**2
      c = 2 * math.atan2(math.sqrt(a), math.sqrt(1-a))
      return R * c
  \<close>
  The calls that can raise are sequenced in Python's left-to-right evaluation order. The
  first argument is the arithmetic of the machine the function runs on.
\<close>

definition calculate_distance ::
  "fparith \<Rightarrow> pyfloat \<Rightarrow> pyfloat \<Rightarrow> pyfloat \<Rightarrow> pyfloat \<Rightarrow> exn + pyfloat" where
  "calculate_distance fp lat1 lon1 lat2 lon2 =
     (let R = Fin 6371000;
          phi1 = radians fp lat1;
          phi2 = radians fp lat2;
          delta_phi = radians fp (py_sub fp lat2 lat1);
          delta_lambda = radians fp (py_sub fp lon2 lon1)
      in ebind (math_sin fp (py_half fp delta_phi)) (\<lambda>s1.
         ebind (math_cos fp phi1) (\<lambda>c1.
         ebind (math_cos fp phi2) (\<lambda>c2.
         ebind (math_sin fp (py_half fp delta_lambda)) (\<lambda>s2.
         let a = py_add fp (py_sq fp s1) (py_mul fp (py_mul fp c1 c2) (py_sq fp s2)) in
         ebind (math_sqrt fp a) (\<lambda>q1.
         ebind (math_sqrt fp (py_sub fp (Fin 1) a)) (\<lambda>q2.
         let c = py_mul fp (Fin 2) (math_atan2 fp q1 q2) in
         Inr (py_mul fp R c))))))))"




text \<open>
  Two things to say about an arithmetic. The first is the arithmetic of the real
  numbers, in which nothing is rounded: the one the specification's formula is read in.
  The second collects facts that hold of IEEE 754 round-to-nearest and of the C library
  on every machine. A real number is a float when rounding leaves it alone. \<^verbatim>\<open>pi / 180\<close>
  lies between 0 and 1; rounding commutes with negation; 0 and 1 are floats; what is no
  larger in absolute value than a float does not overflow; the sine is odd, the cosine
  is at most 1 in absolute value, the square is even; and the values of the library
  functions at 0 and 1 are exact.
\<close>

definition atan2 :: "real \<Rightarrow> real \<Rightarrow> real" where
  "atan2 y x =
     (if 0 < x then arctan (y / x)
      else if x < 0 then (if 0 \<le> y then arctan (y / x) + pi else arctan (y / x) - pi)
      else if 0 < y then pi / 2
      else if y < 0 then - (pi / 2)
      else 0)"


definition is_float :: "fparith \<Rightarrow> real \<Rightarrow> bool" where
  "is_float fp x \<longleftrightarrow> fp_round fp x = Fin x"

definition ieee_arith :: "fparith \<Rightarrow> bool" where
  "ieee_arith fp \<longleftrightarrow>
     0 < fp_deg fp \<and> fp_deg fp \<le> 1
     \<and> (\<forall>x. fp_round fp (- x) = py_neg (fp_round fp x))
     \<and> is_float fp 0 \<and> is_float fp 1
     \<and> (\<forall>x y. is_float fp x \<and> \<bar>y\<bar> \<le> \<bar>x\<bar> \<longrightarrow> is_fin (fp_round fp y))
     \<and> (\<forall>x. fp_sin fp (- x) = - fp_sin fp x)
     \<and> (\<forall>x. \<bar>fp_cos fp x\<bar> \<le> 1)
     \<and> (\<forall>x. fp_pow2 fp (- x) = fp_pow2 fp x) \<and> fp_pow2 fp 0 = 0
     \<and> fp_sqrt fp 0 = 0 \<and> fp_sqrt fp 1 = 1
     \<and> fp_atan2 fp 0 1 = 0"

section \<open>JSON payloads, dates and the SQLite tables\<close>

text \<open>
  What \<^verbatim>\<open>json.loads\<close> returns, but for JSON \<^verbatim>\<open>null\<close>, which is Python's \<^verbatim>\<open>None\<close> and is
  \<open>JNull\<close> here. A JSON object is an association list read with \<open>map_of\<close>. A Python
  string is the list of the bytes of its UTF-8 encoding.
\<close>

datatype json =
    JNull | JBool bool | JInt int | JFloat pyfloat | JStr string
  | JList "json list" | JDict "(string \<times> json) list"

text \<open>Python truthiness, as used by \<^verbatim>\<open>if qr_data and ...\<close>.\<close>

fun truthy :: "json \<Rightarrow> bool" where
  "truthy JNull = False"
| "truthy (JBool b) = b"
| "truthy (JInt i) = (i \<noteq> 0)"
| "truthy (JFloat x) = (x \<noteq> Fin 0)"
| "truthy (JStr s) = (s \<noteq> [])"
| "truthy (JList xs) = (xs \<noteq> [])"
| "truthy (JDict kvs) = (kvs \<noteq> [])"

text \<open>
  \<^verbatim>\<open>key in value\<close>: key membership for a dict, substring test for a string, element
  test for a list, \<^verbatim>\<open>TypeError\<close> for the values that are not iterable.
\<close>

fun py_in :: "string \<Rightarrow> json \<Rightarrow> exn + bool" where
  "py_in k (JDict kvs) = Inr (k \<in> set (map fst kvs))"
| "py_in k (JStr s) = Inr (sublist k s)"
| "py_in k (JList xs) = Inr (JStr k \<in> set xs)"
| "py_in k _ = Inl TypeError"

text \<open>\<^verbatim>\<open>value[key]\<close> with a string key.\<close>

fun py_getitem :: "json \<Rightarrow> string \<Rightarrow> exn + json" where
  "py_getitem (JDict kvs) k = (case map_of kvs k of None \<Rightarrow> Inl KeyError | Some v \<Rightarrow> Inr v)"
| "py_getitem _ k = Inl TypeError"

text \<open>
  A naive \<^verbatim>\<open>datetime\<close>: the calendar day and the microsecond within the day. Its ISO text
  (\<^verbatim>\<open>isoformat()\<close>), and SQLite's \<^verbatim>\<open>DATE(...)\<close> of that text, are not modelled as
  strings: \<^verbatim>\<open>DATE(timestamp) = today\<close> is the comparison of the two calendar days.
\<close>

datatype datetime = DateTime (date_of: int) (time_of: nat)

definition dt_gt :: "datetime \<Rightarrow> datetime \<Rightarrow> bool" where
  "dt_gt a b = (date_of b < date_of a \<or> (date_of a = date_of b \<and> time_of b < time_of a))"

text \<open>
  The result of \<^verbatim>\<open>datetime.fromisoformat\<close> on a string: \<^verbatim>\<open>ValueError\<close>, a datetime with
  a UTC offset (comparing it with \<^verbatim>\<open>datetime.now()\<close> raises \<^verbatim>\<open>TypeError\<close>), or a naive one.
\<close>

datatype iso_result = IsoInvalid | IsoAware | IsoNaive datetime

text \<open>
  A value bound to a \<^verbatim>\<open>?\<close> placeholder by the \<^verbatim>\<open>sqlite3\<close> module. Lists and dicts cannot
  be bound; an integer must fit in 64 bits.
\<close>

datatype sqlparam = PNull | PInt int | PReal pyfloat | PText string

fun sql_param :: "json \<Rightarrow> exn + sqlparam" where
  "sql_param JNull = Inr PNull"
| "sql_param (JBool b) = Inr (PInt (if b then 1 else 0))"
| "sql_param (JInt i) =
     (if - (2 ^ 63) \<le> i \<and> i < 2 ^ 63 then Inr (PInt i) else Inl OverflowError)"
| "sql_param (JFloat x) = Inr (PReal x)"
| "sql_param (JStr s) = Inr (PText s)"
| "sql_param _ = Inl InterfaceError"

text \<open>
  \<^verbatim>\<open>float(value)\<close>; the conversion of a string is a parameter (\<open>None\<close>: \<^verbatim>\<open>ValueError\<close>).
  An integer is rounded to a float, and is refused with \<^verbatim>\<open>OverflowError\<close> when it is
  beyond the range of the floats.
\<close>

fun py_float :: "fparith \<Rightarrow> (string \<Rightarrow> pyfloat option) \<Rightarrow> json \<Rightarrow> exn + pyfloat" where
  "py_float fp fs (JFloat x) = Inr x"
| "py_float fp fs (JInt i) =
     (case fp_round fp (real_of_int i) of Fin v \<Rightarrow> Inr (Fin v) | _ \<Rightarrow> Inl OverflowError)"
| "py_float fp fs (JBool b) = Inr (Fin (if b then 1 else 0))"
| "py_float fp fs (JStr s) = (case fs s of None \<Rightarrow> Inl ValueError | Some x \<Rightarrow> Inr x)"
| "py_float fp fs _ = Inl TypeError"

text \<open>
  \<^verbatim>\<open>str.strip()\<close> removes, at both ends, every character for which \<^verbatim>\<open>str.isspace()\<close>
  holds. These are the code points U+0009 to U+000D, U+001C to U+0020, U+0085, U+00A0,
  U+1680, U+2000 to U+200A, U+2028, U+2029, U+202F, U+205F and U+3000, listed here by
  their UTF-8 encodings. No encoding is the end of another code point's encoding, so
  stripping encodings from the reversed string strips the characters at the end.
\<close>

definition unicode_spaces :: "string list" where
  "unicode_spaces =
     [[CHR 0x09], [CHR 0x0A], [CHR 0x0B], [CHR 0x0C], [CHR 0x0D],
      [CHR 0x1C], [CHR 0x1D], [CHR 0x1E], [CHR 0x1F], [CHR 0x20],
      [CHR 0xC2, CHR 0x85], [CHR 0xC2, CHR 0xA0], [CHR 0xE1, CHR 0x9A, CHR 0x80],
      [CHR 0xE2, CHR 0x80, CHR 0x80], [CHR 0xE2, CHR 0x80, CHR 0x81],
      [CHR 0xE2, CHR 0x80, CHR 0x82], [CHR 0xE2, CHR 0x80, CHR 0x83],
      [CHR 0xE2, CHR 0x80, CHR 0x84], [CHR 0xE2, CHR 0x80, CHR 0x85],
      [CHR 0xE2, CHR 0x80, CHR 0x86], [CHR 0xE2, CHR 0x80, CHR 0x87],
      [CHR 0xE2, CHR 0x80, CHR 0x88], [CHR 0xE2, CHR 0x80, CHR 0x89],
      [CHR 0xE2, CHR 0x80, CHR 0x8A], [CHR 0xE2, CHR 0x80, CHR 0xA8],
      [CHR 0xE2, CHR 0x80, CHR 0xA9], [CHR 0xE2, CHR 0x80, CHR 0xAF],
      [CHR 0xE2, CHR 0x81, CHR 0x9F], [CHR 0xE3, CHR 0x80, CHR 0x80]]"

definition space_prefix :: "string list \<Rightarrow> string \<Rightarrow> nat" where
  "space_prefix ws s = (case find (\<lambda>w. prefix w s) ws of None \<Rightarrow> 0 | Some w \<Rightarrow> length w)"

function lstrip_with :: "string list \<Rightarrow> string \<Rightarrow> string" where
  "lstrip_with ws s =
     (if space_prefix ws s = 0 then s else lstrip_with ws (drop (space_prefix ws s) s))"
  by pat_completeness auto
termination
proof (relation "measure (\<lambda>(ws, s). length s)")
  show "wf (measure (\<lambda>(ws, s). length s))"
    by simp
next
  fix ws :: "string list" and s :: string
  assume n: "space_prefix ws s \<noteq> 0"
  then obtain w where w: "find (\<lambda>w. prefix w s) ws = Some w" "length w \<noteq> 0"
    by (auto simp: space_prefix_def split: option.splits)
  then have "prefix w s"
    by (auto simp: find_Some_iff)
  then have "s \<noteq> []"
    using w(2) by auto
  then show "((ws, drop (space_prefix ws s) s), (ws, s)) \<in> measure (\<lambda>(ws, s). length s)"
    using n by simp
qed

definition strip :: "string \<Rightarrow> string" where
  "strip s =
     rev (lstrip_with (map rev unicode_spaces) (rev (lstrip_with unicode_spaces s)))"

text \<open>
  The two tables of \<^verbatim>\<open>init_database\<close> that redemption touches. Columns with TEXT
  affinity hold strings; \<^verbatim>\<open>is_active\<close> is the 0/1 flag. The \<^verbatim>\<open>created_date\<close> column of
  \<^verbatim>\<open>attendance\<close> (a default, read by nothing) is left out. The \<^verbatim>\<open>attendance\<close> table has
  an autoincrement key and no other constraint than \<^verbatim>\<open>NOT NULL\<close> on some columns.
\<close>

record qr_row =
  q_qr_id :: string
  q_subject :: string
  q_period :: string
  q_latitude :: pyfloat
  q_longitude :: pyfloat
  q_created_at :: string
  q_expires_at :: string
  q_created_by :: "string option"
  q_is_active :: bool

record att_row =
  a_id :: nat
  a_student_name :: string
  a_student_roll :: string
  a_subject :: string
  a_period :: string
  a_timestamp :: datetime
  a_device_id :: string
  a_student_latitude :: pyfloat
  a_student_longitude :: pyfloat
  a_qr_latitude :: sqlparam
  a_qr_longitude :: sqlparam
  a_status :: string
  a_marked_by :: "string option"
  a_modified_by :: "string option"
  a_modification_reason :: "string option"

record db =
  qr_codes :: "qr_row list"
  attendance :: "att_row list"
  attendance_seq :: nat

text \<open>
  The mode of a PIL image: the modes of the Pillow documentation, the 16-bit modes
  \<^verbatim>\<open>I;16\<close>, \<^verbatim>\<open>I;16L\<close>, \<^verbatim>\<open>I;16B\<close> and \<^verbatim>\<open>I;16N\<close> counted as one. \<^verbatim>\<open>np.array(image)\<close> has
  three or four 8-bit channels for the modes RGB, RGBA, CMYK, YCbCr, LAB, HSV, RGBX and
  RGBa, which \<^verbatim>\<open>cv2.cvtColor(..., cv2.COLOR_RGB2BGR)\<close> accepts; for the others it is a
  two-dimensional or two-channel array (of booleans for mode 1), on which the
  conversion raises \<^verbatim>\<open>cv2.error\<close>.
\<close>

datatype pil_mode =
    Mode_1 | Mode_L | Mode_P | Mode_RGB | Mode_RGBA | Mode_CMYK | Mode_YCbCr | Mode_LAB
  | Mode_HSV | Mode_I | Mode_F | Mode_LA | Mode_PA | Mode_RGBX | Mode_RGBa | Mode_La
  | Mode_I16

fun cvt_color_accepts :: "pil_mode \<Rightarrow> bool" where
  "cvt_color_accepts Mode_RGB = True"
| "cvt_color_accepts Mode_RGBA = True"
| "cvt_color_accepts Mode_CMYK = True"
| "cvt_color_accepts Mode_YCbCr = True"
| "cvt_color_accepts Mode_LAB = True"
| "cvt_color_accepts Mode_HSV = True"
| "cvt_color_accepts Mode_RGBX = True"
| "cvt_color_accepts Mode_RGBa = True"
| "cvt_color_accepts _ = False"

text \<open>
  Everything the code obtains from outside itself during one run of \<^verbatim>\<open>student_app\<close>:
  the float arithmetic of the machine, the library functions it calls (the mode of the
  opened image, OpenCV's detector, \<^verbatim>\<open>json.loads\<close>, \<^verbatim>\<open>datetime.fromisoformat\<close>, \<^verbatim>\<open>float\<close>
  on a string, SQLite's rendering of a number as text for a TEXT column), the three
  readings of \<^verbatim>\<open>datetime.now()\<close> in the order the code takes them, and the fresh
  \<^verbatim>\<open>uuid4\<close>. The detector returns the decoded text and whether \<^verbatim>\<open>vertices_array\<close> is not
  \<^verbatim>\<open>None\<close>. The database is assumed to be reachable.
\<close>

record 'img env =
  arith :: fparith
  image_mode :: "'img \<Rightarrow> pil_mode"
  detectAndDecode :: "'img \<Rightarrow> exn + (string \<times> bool)"
  json_loads :: "string \<Rightarrow> exn + json"
  fromisoformat :: "string \<Rightarrow> iso_result"
  float_of_str :: "string \<Rightarrow> pyfloat option"
  sqlite_num_text :: "sqlparam \<Rightarrow> string"
  now_banner :: datetime
  now_today :: datetime
  now_stamp :: datetime
  uuid4 :: string

text \<open>The widgets of the form, as one run of the script sees them.\<close>

record form =
  submit_attendance :: bool
  student_name :: string
  student_roll :: string
  student_lat :: pyfloat
  student_lon :: pyfloat

section \<open>TokenCodec: \<^verbatim>\<open>generate_qr_code\<close> and \<^verbatim>\<open>read_qr_code\<close>\<close>

text \<open>
  \<^verbatim>\<open>
  def generate_qr_code(qr_data):
      qr = qrcode.QRCode(version=1, box_size=10, border=5)
      qr.add_data(json.dumps(qr_data))
      qr.make(fit=True)
      img = qr.make_image(fill_color="black", back_color="white")
      img_buffer = io.BytesIO()
      img.save(img_buffer, format='PNG')
      img_buffer.seek(0)
      return img, img_buffer.getvalue()
  \<close>
  The two library functions are parameters: \<^verbatim>\<open>json.dumps\<close>, and the rendering of a text
  by \<^verbatim>\<open>QRCode(version=1, box_size=10, border=5)\<close> with \<^verbatim>\<open>make_image\<close> in black on white.
  The image returned and the image that its PNG bytes open as are the same picture in
  the same mode, and the model has one value for both.
\<close>

definition generate_qr_code ::
  "(json \<Rightarrow> string) \<Rightarrow> (string \<Rightarrow> exn + 'img) \<Rightarrow> json \<Rightarrow> exn + 'img" where
  "generate_qr_code json_dumps make_image qr_data = make_image (json_dumps qr_data)"

text \<open>
  What the \<^verbatim>\<open>qrcode\<close> library does, for images given by their mode and the text of the
  code they show: \<^verbatim>\<open>make_image(fill_color="black", back_color="white")\<close> draws into a
  new PIL image of mode 1 (one bit per pixel), the mode it chooses for black on white,
  and the PNG file saved from it opens in mode 1.
\<close>

definition qr_make_image :: "string \<Rightarrow> exn + (pil_mode \<times> string)" where
  "qr_make_image s = Inr (Mode_1, s)"

text \<open>
  \<^verbatim>\<open>
  def read_qr_code(image):
      try:
          opencv_img = cv2.cvtColor(np.array(image), cv2.COLOR_RGB2BGR)
          detector = cv2.QRCodeDetector()
          data, vertices_array, binary_qrcode = detector.detectAndDecode(opencv_img)
          if vertices_array is not None and len(data) > 0:
              try:
                  return json.loads(data)
              except json.JSONDecodeError:
                  return None
          return None
      except Exception as e:
          st.error(f"Error reading QR code: {str(e)}")
          return None
  \<close>
  The \<open>None\<close> of the result is Python's \<^verbatim>\<open>None\<close>, which is also what \<^verbatim>\<open>json.loads\<close>
  returns for the text \<^verbatim>\<open>null\<close>.
\<close>

definition read_qr_code :: "'img env \<Rightarrow> 'img \<Rightarrow> json option" where
  "read_qr_code env img =
     (if \<not> cvt_color_accepts (image_mode env img) then None
      else
        case detectAndDecode env img of
          Inl e \<Rightarrow> None
        | Inr (data, found) \<Rightarrow>
            if found \<and> 0 < length data then
              (case json_loads env data of
                 Inl e \<Rightarrow> None
               | Inr v \<Rightarrow> if v = JNull then None else Some v)
            else None)"

section \<open>RedemptionEngine: \<^verbatim>\<open>student_app\<close>\<close>

text \<open>
  What one run of \<^verbatim>\<open>student_app\<close> shows: the expiry line of the information block (when
  the block is reached), and the message that ends the run.
\<close>

datatype banner = ExpiredAt datetime | ValidUntil datetime | Checking

datatype outcome =
    NoUpload
  | Unreadable
  | Crash exn
  | InvalidQR
  | FormShown
  | MissingDetails
  | AlreadyMarked
  | OutOfRange pyfloat
  | Accepted pyfloat
  | DatabaseError exn

record run =
  r_banner :: "banner option"
  r_outcome :: outcome
  r_db :: db

text \<open>
  A bound value as a TEXT column compares and stores it: \<open>None\<close> is SQL \<^verbatim>\<open>NULL\<close> (also
  what a bound NaN becomes); a number is rendered as text.
\<close>

fun text_value :: "'img env \<Rightarrow> sqlparam \<Rightarrow> string option" where
  "text_value env PNull = None"
| "text_value env (PText s) = Some s"
| "text_value env (PInt i) = Some (sqlite_num_text env (PInt i))"
| "text_value env (PReal x) = (if is_nan x then None else Some (sqlite_num_text env (PReal x)))"

text \<open>
  Lines 1127-1131: the information block subscripts the payload four times, outside
  any \<^verbatim>\<open>try\<close>.
\<close>

definition show_qr_info :: "json \<Rightarrow> exn + unit" where
  "show_qr_info qr_data =
     ebind (py_getitem qr_data ''subject'') (\<lambda>_.
     ebind (py_getitem qr_data ''period'') (\<lambda>_.
     ebind (py_getitem qr_data ''latitude'') (\<lambda>_.
     ebind (py_getitem qr_data ''longitude'') (\<lambda>_. Inr ()))))"

text \<open>
  Lines 1132-1139:
  \<^verbatim>\<open>
  try:
      expires_at = datetime.fromisoformat(qr_data['expires_at'])
      if datetime.now() > expires_at:
          st.warning(f"QR Code expired at ...")
      else:
          st.info(f"Valid until: ...")
  except:
      st.info("Validity: Checking...")
  \<close>
\<close>

definition expiry_banner :: "'img env \<Rightarrow> json \<Rightarrow> banner" where
  "expiry_banner env qr_data =
     (case py_getitem qr_data ''expires_at'' of
        Inr (JStr s) \<Rightarrow>
          (case fromisoformat env s of
             IsoNaive expires_at \<Rightarrow>
               if dt_gt (now_banner env) expires_at then ExpiredAt expires_at
               else ValidUntil expires_at
           | _ \<Rightarrow> Checking)
      | _ \<Rightarrow> Checking)"

text \<open>
  Lines 1146-1150: \<^verbatim>\<open>SELECT * FROM qr_codes WHERE qr_id = ? AND is_active = 1\<close> followed by
  \<^verbatim>\<open>fetchone()\<close>.
\<close>

definition lookup_active :: "qr_row list \<Rightarrow> string option \<Rightarrow> qr_row option" where
  "lookup_active rows k = find (\<lambda>r. Some (q_qr_id r) = k \<and> q_is_active r) rows"

text \<open>
  Lines 1174-1180:
  \<^verbatim>\<open>
  SELECT COUNT(*) FROM attendance
  WHERE student_name = ? AND subject = ? AND period = ? AND DATE(timestamp) = ?
  \<close>
\<close>

definition count_existing ::
  "att_row list \<Rightarrow> string \<Rightarrow> string option \<Rightarrow> string option \<Rightarrow> datetime \<Rightarrow> nat" where
  "count_existing rows name subj per today =
     length (filter (\<lambda>r. a_student_name r = name \<and> Some (a_subject r) = subj
                          \<and> Some (a_period r) = per
                          \<and> date_of (a_timestamp r) = date_of today) rows)"

text \<open>
  Lines 1172-1194, the reading half of a submission: the duplicate query, the distance
  and its comparison with 1000.
  \<^verbatim>\<open>
  today = datetime.now().date().isoformat()
  cursor.execute(<count query>, (student_name.strip(), qr_data['subject'], qr_data['period'], today))
  existing_count = cursor.fetchone()[0]
  if existing_count > 0:
      st.warning("You have already marked attendance for this subject today!")
  else:
      distance = calculate_distance(
          float(qr_data['latitude']), float(qr_data['longitude']),
          student_lat, student_lon)
      st.info(f"Distance from classroom: {distance:.2f} meters")
      if distance <= 1000:
  \<close>
\<close>

datatype decision = Already | Far pyfloat | Near pyfloat

definition submit_check :: "'img env \<Rightarrow> db \<Rightarrow> json \<Rightarrow> form \<Rightarrow> exn + decision" where
  "submit_check env d qr_data f =
     ebind (py_getitem qr_data ''subject'') (\<lambda>subj.
     ebind (py_getitem qr_data ''period'') (\<lambda>per.
     ebind (sql_param subj) (\<lambda>p_subj.
     ebind (sql_param per) (\<lambda>p_per.
     let existing_count =
           count_existing (attendance d) (strip (student_name f))
             (text_value env p_subj) (text_value env p_per) (now_today env)
     in if 0 < existing_count then Inr Already
        else
          ebind (py_getitem qr_data ''latitude'') (\<lambda>lat.
          ebind (py_float (arith env) (float_of_str env) lat) (\<lambda>la.
          ebind (py_getitem qr_data ''longitude'') (\<lambda>lon.
          ebind (py_float (arith env) (float_of_str env) lon) (\<lambda>lo.
          ebind (calculate_distance (arith env) la lo (student_lat f) (student_lon f))
            (\<lambda>distance.
          if py_le distance (Fin 1000) then Inr (Near distance)
          else Inr (Far distance))))))))))"

text \<open>
  Lines 1195-1210, the writing half: the \<^verbatim>\<open>INSERT INTO attendance\<close> and the commit. The
  statement fails when a value cannot be bound or when \<^verbatim>\<open>subject\<close> or \<^verbatim>\<open>period\<close> would
  be \<^verbatim>\<open>NULL\<close>; the table has no uniqueness constraint to violate. The anchor columns keep
  the values as bound.
\<close>

definition attendance_row ::
  "'img env \<Rightarrow> db \<Rightarrow> form \<Rightarrow> string \<Rightarrow> string \<Rightarrow> sqlparam \<Rightarrow> sqlparam \<Rightarrow> att_row" where
  "attendance_row env d f subj per p_lat p_lon =
     \<lparr>a_id = Suc (attendance_seq d),
      a_student_name = strip (student_name f),
      a_student_roll = strip (student_roll f),
      a_subject = subj,
      a_period = per,
      a_timestamp = now_stamp env,
      a_device_id = uuid4 env,
      a_student_latitude = student_lat f,
      a_student_longitude = student_lon f,
      a_qr_latitude = p_lat,
      a_qr_longitude = p_lon,
      a_status = ''present'',
      a_marked_by = Some ''student_app'',
      a_modified_by = None,
      a_modification_reason = None\<rparr>"

definition submit_commit :: "'img env \<Rightarrow> db \<Rightarrow> json \<Rightarrow> form \<Rightarrow> exn + db" where
  "submit_commit env d qr_data f =
     ebind (py_getitem qr_data ''subject'') (\<lambda>subj.
     ebind (py_getitem qr_data ''period'') (\<lambda>per.
     ebind (py_getitem qr_data ''latitude'') (\<lambda>lat.
     ebind (py_getitem qr_data ''longitude'') (\<lambda>lon.
     ebind (sql_param subj) (\<lambda>p_subj.
     ebind (sql_param per) (\<lambda>p_per.
     ebind (sql_param lat) (\<lambda>p_lat.
     ebind (sql_param lon) (\<lambda>p_lon.
     case (text_value env p_subj, text_value env p_per) of
       (Some s, Some p) \<Rightarrow>
         Inr (d\<lparr>attendance := attendance d @ [attendance_row env d f s p p_lat p_lon],
                attendance_seq := Suc (attendance_seq d)\<rparr>)
     | _ \<Rightarrow> Inl IntegrityError))))))))"

text \<open>
  The body of \<^verbatim>\<open>if submit_attendance and student_name.strip() and student_roll.strip()\<close>.
  Every exception is caught by the \<^verbatim>\<open>except Exception\<close> of line 1239 and nothing
  uncommitted survives \<^verbatim>\<open>conn.close()\<close>.
\<close>

definition submit_finish ::
  "'img env \<Rightarrow> db \<Rightarrow> json \<Rightarrow> form \<Rightarrow> exn + decision \<Rightarrow> outcome \<times> db" where
  "submit_finish env d qr_data f checked =
     (case checked of
        Inl e \<Rightarrow> (DatabaseError e, d)
      | Inr Already \<Rightarrow> (AlreadyMarked, d)
      | Inr (Far distance) \<Rightarrow> (OutOfRange distance, d)
      | Inr (Near distance) \<Rightarrow>
          (case submit_commit env d qr_data f of
             Inl e \<Rightarrow> (DatabaseError e, d)
           | Inr d' \<Rightarrow> (Accepted distance, d')))"

definition submit :: "'img env \<Rightarrow> db \<Rightarrow> json \<Rightarrow> form \<Rightarrow> outcome \<times> db" where
  "submit env d qr_data f = submit_finish env d qr_data f (submit_check env d qr_data f)"

text \<open>
  Lines 1141-1241, from the lookup of the code in \<^verbatim>\<open>qr_codes\<close> on. The stored row is used
  for one thing only: \<^verbatim>\<open>if qr_record:\<close>.
\<close>

definition verify_and_mark :: "'img env \<Rightarrow> db \<Rightarrow> json \<Rightarrow> form \<Rightarrow> outcome \<times> db" where
  "verify_and_mark env d qr_data f =
     (case ebind (py_getitem qr_data ''qr_id'') sql_param of
        Inl e \<Rightarrow> (DatabaseError e, d)
      | Inr p_id \<Rightarrow>
          (case lookup_active (qr_codes d) (text_value env p_id) of
             None \<Rightarrow> (InvalidQR, d)
           | Some qr_record \<Rightarrow>
               if submit_attendance f \<and> strip (student_name f) \<noteq> []
                  \<and> strip (student_roll f) \<noteq> []
               then submit env d qr_data f
               else if submit_attendance f then (MissingDetails, d)
               else (FormShown, d)))"

text \<open>
  \<^verbatim>\<open>student_app\<close> from the file uploader on (the upload has been opened as an image).
  \<^verbatim>\<open>
  qr_data = read_qr_code(image)
  if qr_data and 'qr_id' in qr_data:
      ... information block, lookup, form ...
  else:
      st.error("Unable to read QR code! ...")
  \<close>
\<close>

definition student_app :: "'img env \<Rightarrow> db \<Rightarrow> 'img option \<Rightarrow> form \<Rightarrow> run" where
  "student_app env d uploaded_file f =
     (case uploaded_file of
        None \<Rightarrow> \<lparr>r_banner = None, r_outcome = NoUpload, r_db = d\<rparr>
      | Some img \<Rightarrow>
          (case read_qr_code env img of
             None \<Rightarrow> \<lparr>r_banner = None, r_outcome = Unreadable, r_db = d\<rparr>
           | Some qr_data \<Rightarrow>
               if \<not> truthy qr_data
               then \<lparr>r_banner = None, r_outcome = Unreadable, r_db = d\<rparr>
               else
                 (case py_in ''qr_id'' qr_data of
                    Inl e \<Rightarrow> \<lparr>r_banner = None, r_outcome = Crash e, r_db = d\<rparr>
                  | Inr False \<Rightarrow> \<lparr>r_banner = None, r_outcome = Unreadable, r_db = d\<rparr>
                  | Inr True \<Rightarrow>
                      (case show_qr_info qr_data of
                         Inl e \<Rightarrow> \<lparr>r_banner = None, r_outcome = Crash e, r_db = d\<rparr>
                       | Inr _ \<Rightarrow>
                           (case verify_and_mark env d qr_data f of
                              (out, d') \<Rightarrow>
                                \<lparr>r_banner = Some (expiry_banner env qr_data),
                                 r_outcome = out, r_db = d'\<rparr>)))))"

section \<open>The edit form of \<^verbatim>\<open>edit_attendance\<close>\<close>

text \<open>
  The statement behind "Save Changes":
  \<^verbatim>\<open>
  UPDATE attendance SET status = ?, modified_by = ?, modification_reason = ? WHERE id = ?
  \<close>
  It is the only other statement of the program that writes to \<^verbatim>\<open>attendance\<close>.
\<close>

definition edit_attendance :: "db \<Rightarrow> nat \<Rightarrow> string \<Rightarrow> string \<Rightarrow> string \<Rightarrow> db" where
  "edit_attendance d record_id new_status faculty_id modification_reason =
     d\<lparr>attendance :=
         map (\<lambda>r. if a_id r = record_id
                   then r\<lparr>a_status := new_status, a_modified_by := Some faculty_id,
                          a_modification_reason := Some modification_reason\<rparr>
                   else r)
           (attendance d)\<rparr>"

section \<open>Issued tokens, reachable tables and interleaved sessions\<close>

text \<open>
  The payload that \<^verbatim>\<open>generate_qr_page\<close> (lines 765-773) puts into the code, as
  \<^verbatim>\<open>json.loads\<close> gives it back: the wire format of the token.
  \<^verbatim>\<open>
  qr_data = {"qr_id": qr_id, "subject": subject, "period": period,
             "latitude": latitude, "longitude": longitude,
             "created_at": created_at.isoformat(), "expires_at": expires_at.isoformat()}
  \<close>
\<close>

definition qr_payload ::
  "string \<Rightarrow> string \<Rightarrow> string \<Rightarrow> pyfloat \<Rightarrow> pyfloat \<Rightarrow> string \<Rightarrow> string \<Rightarrow> json" where
  "qr_payload qr_id subject period latitude longitude created_at expires_at =
     JDict [(''qr_id'', JStr qr_id), (''subject'', JStr subject), (''period'', JStr period),
            (''latitude'', JFloat latitude), (''longitude'', JFloat longitude),
            (''created_at'', JStr created_at), (''expires_at'', JStr expires_at)]"

text \<open>
  The key of the duplicate query, and the origin of a record. The only \<^verbatim>\<open>INSERT\<close> into
  \<^verbatim>\<open>attendance\<close> is the one of \<^verbatim>\<open>student_app\<close>, which sets \<^verbatim>\<open>marked_by\<close> to
  \<^verbatim>\<open>'student_app'\<close>.
\<close>

definition same_key :: "att_row \<Rightarrow> string \<Rightarrow> string \<Rightarrow> string \<Rightarrow> datetime \<Rightarrow> bool" where
  "same_key r name subj per today =
     (a_student_name r = name \<and> a_subject r = subj \<and> a_period r = per
        \<and> date_of (a_timestamp r) = date_of today)"

definition from_redemption :: "att_row \<Rightarrow> bool" where
  "from_redemption r = (a_marked_by r = Some ''student_app'')"

definition all_from_redemption :: "db \<Rightarrow> bool" where
  "all_from_redemption d = list_all from_redemption (attendance d)"

text \<open>
  Two sessions A and B submitting against the same database: both run the reading half
  before either runs the writing half. Each session has its own connection, the count
  query holds no lock after it returns, and the two inserts commit one after the other.
\<close>

definition interleaved ::
  "'img env \<Rightarrow> form \<Rightarrow> 'img env \<Rightarrow> form \<Rightarrow> db \<Rightarrow> json \<Rightarrow> outcome \<times> outcome \<times> db" where
  "interleaved envA fA envB fB d qr_data =
     (let checkedA = submit_check envA d qr_data fA;
          checkedB = submit_check envB d qr_data fB;
          (outA, d1) = submit_finish envA d qr_data fA checkedA;
          (outB, d2) = submit_finish envB d1 qr_data fB checkedB
      in (outA, outB, d2))"

section \<open>Sample data\<close>

text \<open>
  A sample arithmetic. Its tables hold what IEEE 754 binary64 arithmetic and the C
  library give at the operands that the sample computations below meet: the exact
  results that are not floats with their roundings, and the arguments of the library
  functions with their values (all by absolute value, the sign being restored by
  symmetry). Everywhere else the sample arithmetic is exact. \<open>fp_deg\<close> is the float
  0.017453292519943295.
\<close>

definition round_table :: "(real \<times> real) list" where
  "round_table =
     [(611589483671477139837729328609 / 2 ^ 104, 4345604648900385 / 2 ^ 57),
      (15091707204327339 / 2 ^ 56, 3772926801081835 / 2 ^ 54),
      (25044142882877264156113329100503 / 2 ^ 106, 5560916812114517 / 2 ^ 54),
      (26460122194164623194835766908631 / 2 ^ 106, 734415922358917 / 2 ^ 51),
      (15091707204327339 / 2 ^ 55, 3772926801081835 / 2 ^ 53),
      (4576256277649159277743103476435 / 2 ^ 102, 508066508603151 / 2 ^ 49),
      (287660760404464552363955004841 / 2 ^ 98, 4087905273372379 / 2 ^ 52),
      (4737709078016885151862745089 / 2 ^ 92, 2154460652498931 / 2 ^ 51),
      (36890678618947866063 / 2 ^ 65, 9006513334704069 / 2 ^ 53),
      (72057594037927947 / 2 ^ 56, 4503599627370497 / 2 ^ 52),
      (125764226702727825 / 2 ^ 56, 7860264168920489 / 2 ^ 52),
      (226375608064910085 / 2 ^ 56, 884279719003555 / 2 ^ 48),
      (4006219441615394865375 / 2 ^ 55, 7641257174711981 / 2 ^ 36)]"

definition sin_table :: "(real \<times> real) list" where
  "sin_table =
     [(0, 0),
      (5030569068109113 / 2 ^ 59, 5030505218395169 / 2 ^ 59),
      (3772926801081835 / 2 ^ 54, 3745404053171323 / 2 ^ 54),
      (884279719003555 / 2 ^ 49, 1)]"

definition cos_table :: "(real \<times> real) list" where
  "cos_table =
     [(3772926801081835 / 2 ^ 54, 68831018284033 / 2 ^ 46),
      (5560916812114517 / 2 ^ 54, 536340153638029 / 2 ^ 49),
      (734415922358917 / 2 ^ 51, 8532376788514015 / 2 ^ 53),
      (7860264168920489 / 2 ^ 52, - (782041868234353 / 2 ^ 52))]"

definition sqrt_table :: "(real \<times> real) list" where
  "sqrt_table =
     [(0, 0),
      (2809528471237169 / 2 ^ 65, 5030505218395169 / 2 ^ 59),
      (9006513334704069 / 2 ^ 53, 9006856288192973 / 2 ^ 53),
      (1, 1),
      (4503599627370497 / 2 ^ 52, 1)]"

definition pow2_table :: "(real \<times> real) list" where
  "pow2_table =
     [(0, 0),
      (5030505218395169 / 2 ^ 59, 2809528471237169 / 2 ^ 65),
      (3745404053171323 / 2 ^ 54, 3114853157962155 / 2 ^ 56),
      (1, 1)]"

definition atan2_table :: "((real \<times> real) \<times> real) list" where
  "atan2_table =
     [((0, 1), 0),
      ((5030505218395169 / 2 ^ 59, 9006856288192973 / 2 ^ 53), 5030569068109113 / 2 ^ 59)]"

definition sample_fp :: fparith where
  "sample_fp =
     \<lparr>fp_round = (\<lambda>x. case map_of round_table \<bar>x\<bar> of
                          None \<Rightarrow> Fin x | Some v \<Rightarrow> Fin (sgn x * v)),
      fp_sqrt = (\<lambda>x. case map_of sqrt_table x of None \<Rightarrow> sqrt x | Some v \<Rightarrow> v),
      fp_sin = (\<lambda>x. case map_of sin_table \<bar>x\<bar> of None \<Rightarrow> sin x | Some v \<Rightarrow> sgn x * v),
      fp_cos = (\<lambda>x. case map_of cos_table \<bar>x\<bar> of None \<Rightarrow> cos x | Some v \<Rightarrow> v),
      fp_atan2 = (\<lambda>y x. case map_of atan2_table (y, x) of None \<Rightarrow> atan2 y x | Some v \<Rightarrow> v),
      fp_pow2 = (\<lambda>x. case map_of pow2_table \<bar>x\<bar> of None \<Rightarrow> x\<^sup>2 | Some v \<Rightarrow> v),
      fp_deg = 5030569068109113 / 2 ^ 58\<rparr>"

text \<open>
  A token for Mathematics, Period 1, anchored at (17.6868, 83.2185), issued on
  2024-01-01 at 10:00 and valid for 30 minutes; day 738886 is 2024-01-01. The
  coordinates are the floats that these decimals denote, and so is the latitude 18.6868
  of a far claimant. The image type is \<open>unit\<close>: the one image there is is a colour
  photograph of the code, and the detector and the parser of the sample environment
  return the token for it.
\<close>

definition anchor_lat :: real where
  "anchor_lat = 4978391618086031 / 2 ^ 48"

definition anchor_lon :: real where
  "anchor_lon = 1463995334337233 / 2 ^ 44"

definition far_lat :: real where
  "far_lat = 5259866594796687 / 2 ^ 48"

definition demo_token :: json where
  "demo_token = qr_payload ''qr-1'' ''Mathematics'' ''Period 1''
                  (Fin anchor_lat) (Fin anchor_lon)
                  ''2024-01-01T10:00:00'' ''2024-01-01T10:30:00''"

definition demo_expiry :: datetime where
  "demo_expiry = DateTime 738886 37800000000"

definition demo_env :: "unit env" where
  "demo_env =
     \<lparr>arith = sample_fp,
      image_mode = (\<lambda>_. Mode_RGB),
      detectAndDecode = (\<lambda>_. Inr (''token-json'', True)),
      json_loads = (\<lambda>_. Inr demo_token),
      fromisoformat = (\<lambda>s. if s = ''2024-01-01T10:30:00'' then IsoNaive demo_expiry
                            else IsoInvalid),
      float_of_str = (\<lambda>_. None),
      sqlite_num_text = (\<lambda>_. []),
      now_banner = DateTime 738886 36300000000,
      now_today = DateTime 738886 36301000000,
      now_stamp = DateTime 738886 36302000000,
      uuid4 = ''device-1''\<rparr>"

text \<open>The same environment half an hour after the token has expired.\<close>

definition late_env :: "unit env" where
  "late_env =
     demo_env\<lparr>now_banner := DateTime 738886 39600000000,
              now_today := DateTime 738886 39601000000,
              now_stamp := DateTime 738886 39602000000\<rparr>"

definition demo_row :: qr_row where
  "demo_row =
     \<lparr>q_qr_id = ''qr-1'', q_subject = ''Mathematics'', q_period = ''Period 1'',
      q_latitude = Fin anchor_lat, q_longitude = Fin anchor_lon,
      q_created_at = ''2024-01-01T10:00:00'', q_expires_at = ''2024-01-01T10:30:00'',
      q_created_by = Some ''FAC001'', q_is_active = True\<rparr>"

definition demo_db :: db where
  "demo_db = \<lparr>qr_codes = [demo_row], attendance = [], attendance_seq = 0\<rparr>"

text \<open>
  Stores that differ from \<open>demo_db\<close> in the stored row only: every column but the
  identifier and the flag changed, the flag cleared, and the row missing.
\<close>

definition other_db :: db where
  "other_db =
     demo_db\<lparr>qr_codes :=
       [demo_row\<lparr>q_subject := ''History'', q_period := ''Period 6'',
                 q_latitude := Fin 0, q_longitude := Fin 0,
                 q_expires_at := ''2023-01-01T00:00:00''\<rparr>]\<rparr>"

definition inactive_db :: db where
  "inactive_db = demo_db\<lparr>qr_codes := [demo_row\<lparr>q_is_active := False\<rparr>]\<rparr>"

definition empty_db :: db where
  "empty_db = demo_db\<lparr>qr_codes := []\<rparr>"

text \<open>The store after the sample claimant has redeemed the sample token.\<close>

definition marked_db :: db where
  "marked_db =
     demo_db\<lparr>attendance :=
               [attendance_row demo_env demo_db
                  \<lparr>submit_attendance = True, student_name = ''Asha Rao'',
                   student_roll = ''2024001'',
                   student_lat = Fin anchor_lat, student_lon = Fin anchor_lon\<rparr>
                  ''Mathematics'' ''Period 1'' (PReal (Fin anchor_lat)) (PReal (Fin anchor_lon))],
             attendance_seq := 1\<rparr>"

text \<open>
  A claimant at the anchor, and one a degree of latitude north of it, about 111 km away.
\<close>

definition demo_form :: form where
  "demo_form =
     \<lparr>submit_attendance = True, student_name = ''Asha Rao'', student_roll = ''2024001'',
      student_lat = Fin anchor_lat, student_lon = Fin anchor_lon\<rparr>"

definition far_form :: form where
  "far_form = demo_form\<lparr>student_lat := Fin far_lat\<rparr>"

text \<open>
  Environments for images without a code, with a code that is not JSON, with a code
  whose JSON object has the identifier and nothing else, with a code whose JSON object
  lacks the identifier, with the code \<^verbatim>\<open>null\<close>, and for a greyscale image.
\<close>

definition no_code_env :: "unit env" where
  "no_code_env = demo_env\<lparr>detectAndDecode := (\<lambda>_. Inr ([], False))\<rparr>"

definition bad_json_env :: "unit env" where
  "bad_json_env = demo_env\<lparr>json_loads := (\<lambda>_. Inl JSONDecodeError)\<rparr>"

definition partial_env :: "unit env" where
  "partial_env = demo_env\<lparr>json_loads := (\<lambda>_. Inr (JDict [(''qr_id'', JStr ''qr-1'')]))\<rparr>"

definition no_id_env :: "unit env" where
  "no_id_env = demo_env\<lparr>json_loads := (\<lambda>_. Inr (JDict [(''subject'', JStr ''Mathematics'')]))\<rparr>"

definition null_env :: "unit env" where
  "null_env = demo_env\<lparr>json_loads := (\<lambda>_. Inr JNull)\<rparr>"

definition gray_env :: "unit env" where
  "gray_env = demo_env\<lparr>image_mode := (\<lambda>_. Mode_L)\<rparr>"

text \<open>
  An environment for images given by their mode and the text of the code they show: its
  detector reads the text off every image handed to it, and its parser reads the sample
  token from the text \<^verbatim>\<open>token-json\<close>.
\<close>

definition codec_env :: "(pil_mode \<times> string) env" where
  "codec_env =
     \<lparr>arith = sample_fp,
      image_mode = fst,
      detectAndDecode = (\<lambda>img. Inr (snd img, True)),
      json_loads = (\<lambda>s. if s = ''token-json'' then Inr demo_token else Inl JSONDecodeError),
      fromisoformat = (\<lambda>s. if s = ''2024-01-01T10:30:00'' then IsoNaive demo_expiry
                            else IsoInvalid),
      float_of_str = (\<lambda>_. None),
      sqlite_num_text = (\<lambda>_. []),
      now_banner = DateTime 738886 36300000000,
      now_today = DateTime 738886 36301000000,
      now_stamp = DateTime 738886 36302000000,
      uuid4 = ''device-1''\<rparr>"

text \<open>A second session, with its own clock readings and device identifier.\<close>

definition second_env :: "unit env" where
  "second_env =
     demo_env\<lparr>now_today := DateTime 738886 36301500000,
              now_stamp := DateTime 738886 36302500000,
              uuid4 := ''device-2''\<rparr>"


section \<open>GeoMath: the formula is the haversine formula\<close>
















section \<open>GeoMath: what holds in every arithmetic\<close>

lemma ieee_arithD:
  assumes "ieee_arith fp"
  shows "0 < fp_deg fp" "fp_deg fp \<le> 1"
    "fp_round fp (- x) = py_neg (fp_round fp x)"
    "fp_round fp 0 = Fin 0" "fp_round fp 1 = Fin 1"
    "is_float fp x \<Longrightarrow> \<bar>y\<bar> \<le> \<bar>x\<bar> \<Longrightarrow> is_fin (fp_round fp y)"
    "fp_sin fp (- x) = - fp_sin fp x"
    "\<bar>fp_cos fp x\<bar> \<le> 1"
    "fp_pow2 fp (- x) = fp_pow2 fp x" "fp_pow2 fp 0 = 0"
    "fp_sqrt fp 0 = 0" "fp_sqrt fp 1 = 1" "fp_atan2 fp 0 1 = 0"
  using assms unfolding ieee_arith_def is_float_def by blast+

lemma fp_sin_zero: "ieee_arith fp \<Longrightarrow> fp_sin fp 0 = 0"
  using ieee_arithD(7) [of fp 0] by simp













text \<open>The distance from a point to itself, when the latitude is a float.\<close>

lemma calculate_distance_same:
  assumes fp: "ieee_arith fp" and lat: "is_float fp lat"
  shows "calculate_distance fp (Fin lat) (Fin lon) (Fin lat) (Fin lon) = Inr (Fin 0)"
proof -
  note D = ieee_arithD [OF fp]
  have sub: "py_sub fp (Fin x) (Fin x) = Fin 0" for x
    by (simp add: py_sub_def D(4))
  have rad0: "radians fp (Fin 0) = Fin 0"
    by (simp add: radians_def py_mul_def D(4))
  have half0: "py_half fp (Fin 0) = Fin 0"
    by (simp add: D(4))
  have sin0: "math_sin fp (Fin 0) = Inr (Fin 0)"
    by (simp add: fp_sin_zero [OF fp])
  have "\<bar>lat * fp_deg fp\<bar> \<le> \<bar>lat\<bar>"
    using D(1,2) by (simp add: abs_mult mult_left_le)
  then have "is_fin (fp_round fp (lat * fp_deg fp))"
    using D(6) [OF lat] by blast
  then obtain p where p: "radians fp (Fin lat) = Fin p"
    by (cases "fp_round fp (lat * fp_deg fp)") (simp_all add: radians_def py_mul_def)
  define c where "c = fp_cos fp p"
  have cosp: "math_cos fp (Fin p) = Inr (Fin c)"
    by (simp add: c_def)
  have "\<bar>c\<bar> * \<bar>c\<bar> \<le> 1"
    using D(8) [of p] unfolding c_def by (intro mult_le_one) simp_all
  then have "\<bar>c * c\<bar> \<le> \<bar>1 :: real\<bar>"
    by (simp add: abs_mult)
  moreover have "is_float fp 1"
    by (simp add: is_float_def D(5))
  ultimately have "is_fin (fp_round fp (c * c))"
    using D(6) by blast
  then obtain m where m: "py_mul fp (Fin c) (Fin c) = Fin m"
    by (cases "fp_round fp (c * c)") (simp_all add: py_mul_def)
  have sq0: "py_sq fp (Fin 0) = Fin 0"
    by (simp add: D(10))
  have m0: "py_mul fp (Fin x) (Fin 0) = Fin 0" for x
    by (simp add: py_mul_def D(4))
  have add0: "py_add fp (Fin 0) (Fin 0) = Fin 0"
    by (simp add: D(4))
  have sqrt0: "math_sqrt fp (Fin 0) = Inr (Fin 0)"
    by (simp add: D(11))
  have one: "py_sub fp (Fin 1) (Fin 0) = Fin 1"
    by (simp add: py_sub_def D(5))
  have sqrt1: "math_sqrt fp (Fin 1) = Inr (Fin 1)"
    by (simp add: D(12))
  have at: "math_atan2 fp (Fin 0) (Fin 1) = Fin 0"
    by (simp add: D(13))
  show ?thesis
    by (simp only: calculate_distance_def Let_def sub rad0 half0 sin0 p cosp m sq0 m0 add0
        sqrt0 one sqrt1 at ebind_def sum.case)
qed

text \<open>A NaN coordinate makes the argument of the square roots NaN.\<close>

lemma py_add_NaN: "py_add fp NaN x = NaN" "py_add fp x NaN = NaN"
  by (cases x; simp)+

lemma py_sub_NaN: "py_sub fp NaN x = NaN" "py_sub fp x NaN = NaN"
  by (simp_all add: py_sub_def py_add_NaN)

lemma py_mul_NaN: "py_mul fp NaN x = NaN" "py_mul fp x NaN = NaN"
  by (simp_all add: py_mul_def)


lemma calculate_distance_tail_NaN:
  "ebind (math_sqrt fp NaN) (\<lambda>q1.
     ebind (math_sqrt fp (py_sub fp (Fin 1) NaN)) (\<lambda>q2.
     Inr (py_mul fp (Fin 6371000) (py_mul fp (Fin 2) (math_atan2 fp q1 q2))))) = Inr NaN"
  by (simp add: ebind_def py_sub_NaN py_mul_NaN)





section \<open>GeoMath: the sample arithmetic\<close>

lemma cos_table_bound: "map_of cos_table k = Some v \<Longrightarrow> \<bar>v\<bar> \<le> 1"
  by (auto simp: cos_table_def split: if_splits)

lemma sample_fp_fields:
  "fp_round sample_fp = (\<lambda>x. case map_of round_table \<bar>x\<bar> of
                               None \<Rightarrow> Fin x | Some v \<Rightarrow> Fin (sgn x * v))"
  "fp_sqrt sample_fp = (\<lambda>x. case map_of sqrt_table x of None \<Rightarrow> sqrt x | Some v \<Rightarrow> v)"
  "fp_sin sample_fp = (\<lambda>x. case map_of sin_table \<bar>x\<bar> of None \<Rightarrow> sin x | Some v \<Rightarrow> sgn x * v)"
  "fp_cos sample_fp = (\<lambda>x. case map_of cos_table \<bar>x\<bar> of None \<Rightarrow> cos x | Some v \<Rightarrow> v)"
  "fp_atan2 sample_fp = (\<lambda>y x. case map_of atan2_table (y, x) of None \<Rightarrow> atan2 y x | Some v \<Rightarrow> v)"
  "fp_pow2 sample_fp = (\<lambda>x. case map_of pow2_table \<bar>x\<bar> of None \<Rightarrow> x\<^sup>2 | Some v \<Rightarrow> v)"
  "fp_deg sample_fp = 5030569068109113 / 2 ^ 58"
  by (simp_all add: sample_fp_def)

lemma ieee_arith_sample: "ieee_arith sample_fp"
proof -
  have 1: "0 < fp_deg sample_fp \<and> fp_deg sample_fp \<le> 1"
    by (simp add: sample_fp_fields)
  have 2: "fp_round sample_fp (- x) = py_neg (fp_round sample_fp x)" for x
    by (simp add: sample_fp_fields split: option.split)
  have 3: "is_float sample_fp 0" "is_float sample_fp 1"
    by (simp_all add: is_float_def sample_fp_fields round_table_def)
  have 4: "is_fin (fp_round sample_fp y)" for y
    by (simp add: sample_fp_fields split: option.split)
  have 5: "fp_sin sample_fp (- x) = - fp_sin sample_fp x" for x
    by (simp add: sample_fp_fields split: option.split)
  have 6: "\<bar>fp_cos sample_fp x\<bar> \<le> 1" for x
    by (auto simp: sample_fp_fields dest: cos_table_bound split: option.split)
  have 7: "fp_pow2 sample_fp (- x) = fp_pow2 sample_fp x" for x
    by (simp add: sample_fp_fields split: option.split)
  have 8: "fp_pow2 sample_fp 0 = 0" "fp_sqrt sample_fp 0 = 0" "fp_sqrt sample_fp 1 = 1"
    "fp_atan2 sample_fp 0 1 = 0"
    by (simp_all add: sample_fp_fields pow2_table_def sqrt_table_def atan2_table_def)
  show ?thesis
    unfolding ieee_arith_def using 1 2 3 4 5 6 7 8 by blast
qed

lemma sample_floats:
  "is_float sample_fp anchor_lat" "is_float sample_fp far_lat" "is_float sample_fp 100"
  by (simp_all add: is_float_def sample_fp_fields round_table_def anchor_lat_def far_lat_def)

section \<open>GeoMath: sample computations\<close>

text \<open>
  The computation step by step in the sample arithmetic, in both directions: between
  the anchor (17.6868, 83.2185) and the point one degree of latitude to the north, and
  between the points (-12, 70.5) and (12, -109.5), which lie opposite each other on the
  globe. For the latter the sum \<^verbatim>\<open>a\<close> is rounded to 1.0000000000000002, a float above 1:
  \<^verbatim>\<open>1 - a\<close> is negative and \<^verbatim>\<open>math.sqrt\<close> raises \<^verbatim>\<open>ValueError\<close>.
\<close>

lemma far_run:
  "calculate_distance sample_fp (Fin (4978391618086031 / 2 ^ 48)) (Fin (1463995334337233 / 2 ^ 44)) (Fin (5259866594796687 / 2 ^ 48)) (Fin (1463995334337233 / 2 ^ 44)) = Inr (Fin (7641257174711981 / 2 ^ 36))"
proof -
  have s0: "radians sample_fp (Fin (4978391618086031 / 2 ^ 48)) = Fin (5560916812114517 / 2 ^ 54)"
    by (simp add: radians_def py_mul_def sample_fp_def round_table_def)
  have s1: "radians sample_fp (Fin (5259866594796687 / 2 ^ 48)) = Fin (734415922358917 / 2 ^ 51)"
    by (simp add: radians_def py_mul_def sample_fp_def round_table_def)
  have s2: "py_sub sample_fp (Fin (5259866594796687 / 2 ^ 48)) (Fin (4978391618086031 / 2 ^ 48)) = Fin 1"
    by (simp add: py_sub_def sample_fp_def round_table_def)
  have s3: "radians sample_fp (Fin 1) = Fin (5030569068109113 / 2 ^ 58)"
    by (simp add: radians_def py_mul_def sample_fp_def round_table_def)
  have s4: "py_sub sample_fp (Fin (1463995334337233 / 2 ^ 44)) (Fin (1463995334337233 / 2 ^ 44)) = Fin 0"
    by (simp add: py_sub_def sample_fp_def round_table_def)
  have s5: "radians sample_fp (Fin 0) = Fin 0"
    by (simp add: radians_def py_mul_def sample_fp_def round_table_def)
  have s6: "py_half sample_fp (Fin (5030569068109113 / 2 ^ 58)) = Fin (5030569068109113 / 2 ^ 59)"
    by (simp add: sample_fp_def round_table_def)
  have s7: "math_sin sample_fp (Fin (5030569068109113 / 2 ^ 59)) = Inr (Fin (5030505218395169 / 2 ^ 59))"
    by (simp add: sample_fp_def sin_table_def)
  have s8: "math_cos sample_fp (Fin (5560916812114517 / 2 ^ 54)) = Inr (Fin (536340153638029 / 2 ^ 49))"
    by (simp add: sample_fp_def cos_table_def)
  have s9: "math_cos sample_fp (Fin (734415922358917 / 2 ^ 51)) = Inr (Fin (8532376788514015 / 2 ^ 53))"
    by (simp add: sample_fp_def cos_table_def)
  have s10: "py_half sample_fp (Fin 0) = Fin 0"
    by (simp add: sample_fp_def round_table_def)
  have s11: "math_sin sample_fp (Fin 0) = Inr (Fin 0)"
    by (simp add: sample_fp_def sin_table_def)
  have s12: "py_sq sample_fp (Fin (5030505218395169 / 2 ^ 59)) = Fin (2809528471237169 / 2 ^ 65)"
    by (simp add: sample_fp_def pow2_table_def)
  have s13: "py_mul sample_fp (Fin (536340153638029 / 2 ^ 49)) (Fin (8532376788514015 / 2 ^ 53)) = Fin (508066508603151 / 2 ^ 49)"
    by (simp add: py_mul_def sample_fp_def round_table_def)
  have s14: "py_sq sample_fp (Fin 0) = Fin 0"
    by (simp add: sample_fp_def pow2_table_def)
  have s15: "py_mul sample_fp (Fin (508066508603151 / 2 ^ 49)) (Fin 0) = Fin 0"
    by (simp add: py_mul_def sample_fp_def round_table_def)
  have s16: "py_add sample_fp (Fin (2809528471237169 / 2 ^ 65)) (Fin 0) = Fin (2809528471237169 / 2 ^ 65)"
    by (simp add: sample_fp_def round_table_def)
  have s17: "math_sqrt sample_fp (Fin (2809528471237169 / 2 ^ 65)) = Inr (Fin (5030505218395169 / 2 ^ 59))"
    by (simp add: sample_fp_def sqrt_table_def)
  have s18: "py_sub sample_fp (Fin 1) (Fin (2809528471237169 / 2 ^ 65)) = Fin (9006513334704069 / 2 ^ 53)"
    by (simp add: py_sub_def sample_fp_def round_table_def)
  have s19: "math_sqrt sample_fp (Fin (9006513334704069 / 2 ^ 53)) = Inr (Fin (9006856288192973 / 2 ^ 53))"
    by (simp add: sample_fp_def sqrt_table_def)
  have s20: "math_atan2 sample_fp (Fin (5030505218395169 / 2 ^ 59)) (Fin (9006856288192973 / 2 ^ 53)) = Fin (5030569068109113 / 2 ^ 59)"
    by (simp add: sample_fp_def atan2_table_def)
  have s21: "py_mul sample_fp (Fin 2) (Fin (5030569068109113 / 2 ^ 59)) = Fin (5030569068109113 / 2 ^ 58)"
    by (simp add: py_mul_def sample_fp_def round_table_def)
  have s22: "py_mul sample_fp (Fin 6371000) (Fin (5030569068109113 / 2 ^ 58)) = Fin (7641257174711981 / 2 ^ 36)"
    by (simp add: py_mul_def sample_fp_def round_table_def)
  show ?thesis
    by (simp only: calculate_distance_def Let_def s0 s1 s2 s3 s4 s5 s6 s7 s8 s9 s10 s11 s12 s13 s14 s15 s16 s17 s18 s19 s20 s21 s22 ebind_def sum.case)
qed

lemma far_run_swapped:
  "calculate_distance sample_fp (Fin (5259866594796687 / 2 ^ 48)) (Fin (1463995334337233 / 2 ^ 44)) (Fin (4978391618086031 / 2 ^ 48)) (Fin (1463995334337233 / 2 ^ 44)) = Inr (Fin (7641257174711981 / 2 ^ 36))"
proof -
  have s0: "radians sample_fp (Fin (5259866594796687 / 2 ^ 48)) = Fin (734415922358917 / 2 ^ 51)"
    by (simp add: radians_def py_mul_def sample_fp_def round_table_def)
  have s1: "radians sample_fp (Fin (4978391618086031 / 2 ^ 48)) = Fin (5560916812114517 / 2 ^ 54)"
    by (simp add: radians_def py_mul_def sample_fp_def round_table_def)
  have s2: "py_sub sample_fp (Fin (4978391618086031 / 2 ^ 48)) (Fin (5259866594796687 / 2 ^ 48)) = Fin (- 1)"
    by (simp add: py_sub_def sample_fp_def round_table_def)
  have s3: "radians sample_fp (Fin (- 1)) = Fin (- (5030569068109113 / 2 ^ 58))"
    by (simp add: radians_def py_mul_def sample_fp_def round_table_def)
  have s4: "py_sub sample_fp (Fin (1463995334337233 / 2 ^ 44)) (Fin (1463995334337233 / 2 ^ 44)) = Fin 0"
    by (simp add: py_sub_def sample_fp_def round_table_def)
  have s5: "radians sample_fp (Fin 0) = Fin 0"
    by (simp add: radians_def py_mul_def sample_fp_def round_table_def)
  have s6: "py_half sample_fp (Fin (- (5030569068109113 / 2 ^ 58))) = Fin (- (5030569068109113 / 2 ^ 59))"
    by (simp add: sample_fp_def round_table_def)
  have s7: "math_sin sample_fp (Fin (- (5030569068109113 / 2 ^ 59))) = Inr (Fin (- (5030505218395169 / 2 ^ 59)))"
    by (simp add: sample_fp_def sin_table_def)
  have s8: "math_cos sample_fp (Fin (734415922358917 / 2 ^ 51)) = Inr (Fin (8532376788514015 / 2 ^ 53))"
    by (simp add: sample_fp_def cos_table_def)
  have s9: "math_cos sample_fp (Fin (5560916812114517 / 2 ^ 54)) = Inr (Fin (536340153638029 / 2 ^ 49))"
    by (simp add: sample_fp_def cos_table_def)
  have s10: "py_half sample_fp (Fin 0) = Fin 0"
    by (simp add: sample_fp_def round_table_def)
  have s11: "math_sin sample_fp (Fin 0) = Inr (Fin 0)"
    by (simp add: sample_fp_def sin_table_def)
  have s12: "py_sq sample_fp (Fin (- (5030505218395169 / 2 ^ 59))) = Fin (2809528471237169 / 2 ^ 65)"
    by (simp add: sample_fp_def pow2_table_def)
  have s13: "py_mul sample_fp (Fin (8532376788514015 / 2 ^ 53)) (Fin (536340153638029 / 2 ^ 49)) = Fin (508066508603151 / 2 ^ 49)"
    by (simp add: py_mul_def sample_fp_def round_table_def)
  have s14: "py_sq sample_fp (Fin 0) = Fin 0"
    by (simp add: sample_fp_def pow2_table_def)
  have s15: "py_mul sample_fp (Fin (508066508603151 / 2 ^ 49)) (Fin 0) = Fin 0"
    by (simp add: py_mul_def sample_fp_def round_table_def)
  have s16: "py_add sample_fp (Fin (2809528471237169 / 2 ^ 65)) (Fin 0) = Fin (2809528471237169 / 2 ^ 65)"
    by (simp add: sample_fp_def round_table_def)
  have s17: "math_sqrt sample_fp (Fin (2809528471237169 / 2 ^ 65)) = Inr (Fin (5030505218395169 / 2 ^ 59))"
    by (simp add: sample_fp_def sqrt_table_def)
  have s18: "py_sub sample_fp (Fin 1) (Fin (2809528471237169 / 2 ^ 65)) = Fin (9006513334704069 / 2 ^ 53)"
    by (simp add: py_sub_def sample_fp_def round_table_def)
  have s19: "math_sqrt sample_fp (Fin (9006513334704069 / 2 ^ 53)) = Inr (Fin (9006856288192973 / 2 ^ 53))"
    by (simp add: sample_fp_def sqrt_table_def)
  have s20: "math_atan2 sample_fp (Fin (5030505218395169 / 2 ^ 59)) (Fin (9006856288192973 / 2 ^ 53)) = Fin (5030569068109113 / 2 ^ 59)"
    by (simp add: sample_fp_def atan2_table_def)
  have s21: "py_mul sample_fp (Fin 2) (Fin (5030569068109113 / 2 ^ 59)) = Fin (5030569068109113 / 2 ^ 58)"
    by (simp add: py_mul_def sample_fp_def round_table_def)
  have s22: "py_mul sample_fp (Fin 6371000) (Fin (5030569068109113 / 2 ^ 58)) = Fin (7641257174711981 / 2 ^ 36)"
    by (simp add: py_mul_def sample_fp_def round_table_def)
  show ?thesis
    by (simp only: calculate_distance_def Let_def s0 s1 s2 s3 s4 s5 s6 s7 s8 s9 s10 s11 s12 s13 s14 s15 s16 s17 s18 s19 s20 s21 s22 ebind_def sum.case)
qed

lemma antipodal_run:
  "calculate_distance sample_fp (Fin (- 12)) (Fin (141 / 2 ^ 1)) (Fin 12) (Fin (- (219 / 2 ^ 1))) = Inl ValueError"
proof -
  have s0: "radians sample_fp (Fin (- 12)) = Fin (- (3772926801081835 / 2 ^ 54))"
    by (simp add: radians_def py_mul_def sample_fp_def round_table_def)
  have s1: "radians sample_fp (Fin 12) = Fin (3772926801081835 / 2 ^ 54)"
    by (simp add: radians_def py_mul_def sample_fp_def round_table_def)
  have s2: "py_sub sample_fp (Fin 12) (Fin (- 12)) = Fin 24"
    by (simp add: py_sub_def sample_fp_def round_table_def)
  have s3: "radians sample_fp (Fin 24) = Fin (3772926801081835 / 2 ^ 53)"
    by (simp add: radians_def py_mul_def sample_fp_def round_table_def)
  have s4: "py_sub sample_fp (Fin (- (219 / 2 ^ 1))) (Fin (141 / 2 ^ 1)) = Fin (- 180)"
    by (simp add: py_sub_def sample_fp_def round_table_def)
  have s5: "radians sample_fp (Fin (- 180)) = Fin (- (884279719003555 / 2 ^ 48))"
    by (simp add: radians_def py_mul_def sample_fp_def round_table_def)
  have s6: "py_half sample_fp (Fin (3772926801081835 / 2 ^ 53)) = Fin (3772926801081835 / 2 ^ 54)"
    by (simp add: sample_fp_def round_table_def)
  have s7: "math_sin sample_fp (Fin (3772926801081835 / 2 ^ 54)) = Inr (Fin (3745404053171323 / 2 ^ 54))"
    by (simp add: sample_fp_def sin_table_def)
  have s8: "math_cos sample_fp (Fin (- (3772926801081835 / 2 ^ 54))) = Inr (Fin (68831018284033 / 2 ^ 46))"
    by (simp add: sample_fp_def cos_table_def)
  have s9: "math_cos sample_fp (Fin (3772926801081835 / 2 ^ 54)) = Inr (Fin (68831018284033 / 2 ^ 46))"
    by (simp add: sample_fp_def cos_table_def)
  have s10: "py_half sample_fp (Fin (- (884279719003555 / 2 ^ 48))) = Fin (- (884279719003555 / 2 ^ 49))"
    by (simp add: sample_fp_def round_table_def)
  have s11: "math_sin sample_fp (Fin (- (884279719003555 / 2 ^ 49))) = Inr (Fin (- 1))"
    by (simp add: sample_fp_def sin_table_def)
  have s12: "py_sq sample_fp (Fin (3745404053171323 / 2 ^ 54)) = Fin (3114853157962155 / 2 ^ 56)"
    by (simp add: sample_fp_def pow2_table_def)
  have s13: "py_mul sample_fp (Fin (68831018284033 / 2 ^ 46)) (Fin (68831018284033 / 2 ^ 46)) = Fin (2154460652498931 / 2 ^ 51)"
    by (simp add: py_mul_def sample_fp_def round_table_def)
  have s14: "py_sq sample_fp (Fin (- 1)) = Fin 1"
    by (simp add: sample_fp_def pow2_table_def)
  have s15: "py_mul sample_fp (Fin (2154460652498931 / 2 ^ 51)) (Fin 1) = Fin (2154460652498931 / 2 ^ 51)"
    by (simp add: py_mul_def sample_fp_def round_table_def)
  have s16: "py_add sample_fp (Fin (3114853157962155 / 2 ^ 56)) (Fin (2154460652498931 / 2 ^ 51)) = Fin (4503599627370497 / 2 ^ 52)"
    by (simp add: sample_fp_def round_table_def)
  have s17: "math_sqrt sample_fp (Fin (4503599627370497 / 2 ^ 52)) = Inr (Fin 1)"
    by (simp add: sample_fp_def sqrt_table_def)
  have s18: "py_sub sample_fp (Fin 1) (Fin (4503599627370497 / 2 ^ 52)) = Fin (- (1 / 2 ^ 52))"
    by (simp add: py_sub_def sample_fp_def round_table_def)
  have s19: "math_sqrt sample_fp (Fin (- (1 / 2 ^ 52))) = Inl ValueError"
    by (simp add: sample_fp_def sqrt_table_def)
  show ?thesis
    by (simp only: calculate_distance_def Let_def s0 s1 s2 s3 s4 s5 s6 s7 s8 s9 s10 s11 s12 s13 s14 s15 s16 s17 s18 s19 ebind_def sum.case)
qed

lemma antipodal_run_swapped:
  "calculate_distance sample_fp (Fin 12) (Fin (- (219 / 2 ^ 1))) (Fin (- 12)) (Fin (141 / 2 ^ 1)) = Inl ValueError"
proof -
  have s0: "radians sample_fp (Fin 12) = Fin (3772926801081835 / 2 ^ 54)"
    by (simp add: radians_def py_mul_def sample_fp_def round_table_def)
  have s1: "radians sample_fp (Fin (- 12)) = Fin (- (3772926801081835 / 2 ^ 54))"
    by (simp add: radians_def py_mul_def sample_fp_def round_table_def)
  have s2: "py_sub sample_fp (Fin (- 12)) (Fin 12) = Fin (- 24)"
    by (simp add: py_sub_def sample_fp_def round_table_def)
  have s3: "radians sample_fp (Fin (- 24)) = Fin (- (3772926801081835 / 2 ^ 53))"
    by (simp add: radians_def py_mul_def sample_fp_def round_table_def)
  have s4: "py_sub sample_fp (Fin (141 / 2 ^ 1)) (Fin (- (219 / 2 ^ 1))) = Fin 180"
    by (simp add: py_sub_def sample_fp_def round_table_def)
  have s5: "radians sample_fp (Fin 180) = Fin (884279719003555 / 2 ^ 48)"
    by (simp add: radians_def py_mul_def sample_fp_def round_table_def)
  have s6: "py_half sample_fp (Fin (- (3772926801081835 / 2 ^ 53))) = Fin (- (3772926801081835 / 2 ^ 54))"
    by (simp add: sample_fp_def round_table_def)
  have s7: "math_sin sample_fp (Fin (- (3772926801081835 / 2 ^ 54))) = Inr (Fin (- (3745404053171323 / 2 ^ 54)))"
    by (simp add: sample_fp_def sin_table_def)
  have s8: "math_cos sample_fp (Fin (3772926801081835 / 2 ^ 54)) = Inr (Fin (68831018284033 / 2 ^ 46))"
    by (simp add: sample_fp_def cos_table_def)
  have s9: "math_cos sample_fp (Fin (- (3772926801081835 / 2 ^ 54))) = Inr (Fin (68831018284033 / 2 ^ 46))"
    by (simp add: sample_fp_def cos_table_def)
  have s10: "py_half sample_fp (Fin (884279719003555 / 2 ^ 48)) = Fin (884279719003555 / 2 ^ 49)"
    by (simp add: sample_fp_def round_table_def)
  have s11: "math_sin sample_fp (Fin (884279719003555 / 2 ^ 49)) = Inr (Fin 1)"
    by (simp add: sample_fp_def sin_table_def)
  have s12: "py_sq sample_fp (Fin (- (3745404053171323 / 2 ^ 54))) = Fin (3114853157962155 / 2 ^ 56)"
    by (simp add: sample_fp_def pow2_table_def)
  have s13: "py_mul sample_fp (Fin (68831018284033 / 2 ^ 46)) (Fin (68831018284033 / 2 ^ 46)) = Fin (2154460652498931 / 2 ^ 51)"
    by (simp add: py_mul_def sample_fp_def round_table_def)
  have s14: "py_sq sample_fp (Fin 1) = Fin 1"
    by (simp add: sample_fp_def pow2_table_def)
  have s15: "py_mul sample_fp (Fin (2154460652498931 / 2 ^ 51)) (Fin 1) = Fin (2154460652498931 / 2 ^ 51)"
    by (simp add: py_mul_def sample_fp_def round_table_def)
  have s16: "py_add sample_fp (Fin (3114853157962155 / 2 ^ 56)) (Fin (2154460652498931 / 2 ^ 51)) = Fin (4503599627370497 / 2 ^ 52)"
    by (simp add: sample_fp_def round_table_def)
  have s17: "math_sqrt sample_fp (Fin (4503599627370497 / 2 ^ 52)) = Inr (Fin 1)"
    by (simp add: sample_fp_def sqrt_table_def)
  have s18: "py_sub sample_fp (Fin 1) (Fin (4503599627370497 / 2 ^ 52)) = Fin (- (1 / 2 ^ 52))"
    by (simp add: py_sub_def sample_fp_def round_table_def)
  have s19: "math_sqrt sample_fp (Fin (- (1 / 2 ^ 52))) = Inl ValueError"
    by (simp add: sample_fp_def sqrt_table_def)
  show ?thesis
    by (simp only: calculate_distance_def Let_def s0 s1 s2 s3 s4 s5 s6 s7 s8 s9 s10 s11 s12 s13 s14 s15 s16 s17 s18 s19 ebind_def sum.case)
qed

section \<open>GeoMath: symmetry and the distance to oneself\<close>



section \<open>GeoMath: the distance is the haversine distance\<close>




section \<open>RedemptionEngine: a token in the wire format\<close>

lemma payload_items:
  "py_getitem (qr_payload k subj per lat lon ca ea) ''qr_id'' = Inr (JStr k)"
  "py_getitem (qr_payload k subj per lat lon ca ea) ''subject'' = Inr (JStr subj)"
  "py_getitem (qr_payload k subj per lat lon ca ea) ''period'' = Inr (JStr per)"
  "py_getitem (qr_payload k subj per lat lon ca ea) ''latitude'' = Inr (JFloat lat)"
  "py_getitem (qr_payload k subj per lat lon ca ea) ''longitude'' = Inr (JFloat lon)"
  "py_getitem (qr_payload k subj per lat lon ca ea) ''expires_at'' = Inr (JStr ea)"
  by (simp_all add: qr_payload_def)

lemma payload_gate:
  "truthy (qr_payload k subj per lat lon ca ea)"
  "py_in ''qr_id'' (qr_payload k subj per lat lon ca ea) = Inr True"
  by (simp_all add: qr_payload_def)

lemma student_app_payload:
  assumes "read_qr_code env img = Some (qr_payload k subj per lat lon ca ea)"
  shows "student_app env d (Some img) f =
           \<lparr>r_banner = Some (expiry_banner env (qr_payload k subj per lat lon ca ea)),
            r_outcome = fst (verify_and_mark env d (qr_payload k subj per lat lon ca ea) f),
            r_db = snd (verify_and_mark env d (qr_payload k subj per lat lon ca ea) f)\<rparr>"
  using assms
  by (simp add: student_app_def payload_gate payload_items show_qr_info_def ebind_def
      split: prod.splits)

lemma submit_check_payload:
  "submit_check env d (qr_payload k subj per lat lon ca ea) f =
     (if 0 < count_existing (attendance d) (strip (student_name f)) (Some subj) (Some per)
               (now_today env)
      then Inr Already
      else ebind (calculate_distance (arith env) lat lon (student_lat f) (student_lon f))
             (\<lambda>distance.
             if py_le distance (Fin 1000) then Inr (Near distance) else Inr (Far distance)))"
  by (simp add: submit_check_def payload_items ebind_def Let_def)

lemma submit_commit_payload:
  "submit_commit env d (qr_payload k subj per lat lon ca ea) f =
     Inr (d\<lparr>attendance := attendance d @ [attendance_row env d f subj per (PReal lat) (PReal lon)],
            attendance_seq := Suc (attendance_seq d)\<rparr>)"
  by (simp add: submit_commit_def payload_items ebind_def)

lemma verify_and_mark_payload:
  "verify_and_mark env d (qr_payload k subj per lat lon ca ea) f =
     (case lookup_active (qr_codes d) (Some k) of
        None \<Rightarrow> (InvalidQR, d)
      | Some qr_record \<Rightarrow>
          if submit_attendance f \<and> strip (student_name f) \<noteq> [] \<and> strip (student_roll f) \<noteq> []
          then submit env d (qr_payload k subj per lat lon ca ea) f
          else if submit_attendance f then (MissingDetails, d)
          else (FormShown, d))"
  by (simp add: verify_and_mark_def payload_items ebind_def)

lemma count_existing_pos:
  "0 < count_existing rows name (Some subj) (Some per) today
     \<longleftrightarrow> (\<exists>r\<in>set rows. same_key r name subj per today)"
  by (auto simp: count_existing_def same_key_def filter_empty_conv)

lemma demo_token_not_null: "demo_token \<noteq> JNull"
  by (simp add: demo_token_def qr_payload_def)

lemma demo_read: "read_qr_code demo_env () = Some demo_token"
  by (simp add: read_qr_code_def demo_env_def demo_token_not_null)

lemma late_read: "read_qr_code late_env () = Some demo_token"
  by (simp add: read_qr_code_def late_env_def demo_env_def demo_token_not_null)

lemma demo_lookup: "lookup_active (qr_codes demo_db) (Some ''qr-1'') = Some demo_row"
  by (simp add: lookup_active_def demo_db_def demo_row_def)

lemma demo_name: "strip ''Asha Rao'' = ''Asha Rao''"
  by code_simp

lemma demo_roll: "strip ''2024001'' = ''2024001''"
  by code_simp

lemmas demo_names = demo_name demo_roll

lemma demo_payload:
  "demo_token = qr_payload ''qr-1'' ''Mathematics'' ''Period 1''
                  (Fin anchor_lat) (Fin anchor_lon)
                  ''2024-01-01T10:00:00'' ''2024-01-01T10:30:00''"
  by (simp add: demo_token_def)

lemma sample_arith:
  "arith demo_env = sample_fp" "arith late_env = sample_fp" "arith second_env = sample_fp"
  by (simp_all add: demo_env_def late_env_def second_env_def)

lemma demo_distance:
  "calculate_distance sample_fp (Fin anchor_lat) (Fin anchor_lon)
     (student_lat demo_form) (student_lon demo_form) = Inr (Fin 0)"
  using calculate_distance_same [OF ieee_arith_sample sample_floats(1), of anchor_lon]
  by (simp add: demo_form_def)

lemma far_distance:
  "calculate_distance sample_fp (Fin anchor_lat) (Fin anchor_lon)
     (student_lat far_form) (student_lon far_form) = Inr (Fin (7641257174711981 / 2 ^ 36))"
  using far_run by (simp add: far_form_def demo_form_def anchor_lat_def anchor_lon_def far_lat_def)

lemma demo_filled:
  "submit_attendance demo_form" "strip (student_name demo_form) = ''Asha Rao''"
  "strip (student_roll demo_form) = ''2024001''"
  by (simp_all add: demo_form_def demo_names)

text \<open>
  C3. For a redemption that reaches the distance check (the token is in the wire format
  and active in the store, the form is filled in and submitted, no record exists for the
  key today) with computed distance \<open>x\<close>: if \<open>x \<le> 1000\<close>, the value 1000 included, the
  attendance is accepted and the record is appended; if \<open>x > 1000\<close> the outcome is out of
  range, reporting \<open>x\<close>, and the database is unchanged.
\<close>

theorem distance_check_inclusive:
  assumes "read_qr_code env img = Some (qr_payload k subj per lat lon ca ea)"
    and "lookup_active (qr_codes d) (Some k) = Some qr_record"
    and "submit_attendance f" "strip (student_name f) \<noteq> []" "strip (student_roll f) \<noteq> []"
    and "count_existing (attendance d) (strip (student_name f)) (Some subj) (Some per)
           (now_today env) = 0"
    and "calculate_distance (arith env) lat lon (student_lat f) (student_lon f) = Inr (Fin x)"
  shows "(x \<le> 1000 \<longrightarrow>
            r_outcome (student_app env d (Some img) f) = Accepted (Fin x)
          \<and> r_db (student_app env d (Some img) f) =
              d\<lparr>attendance := attendance d @
                    [attendance_row env d f subj per (PReal lat) (PReal lon)],
                attendance_seq := Suc (attendance_seq d)\<rparr>)
       \<and> (1000 < x \<longrightarrow>
            r_outcome (student_app env d (Some img) f) = OutOfRange (Fin x)
          \<and> r_db (student_app env d (Some img) f) = d)"
  using assms
  by (simp add: student_app_payload verify_and_mark_payload submit_def submit_check_payload
      submit_finish_def submit_commit_payload ebind_def)

text \<open>
  C3 at concrete inputs, in the sample arithmetic: a claimant at the anchor, at distance
  0.0, is accepted and one record is written; a claimant one degree of latitude to the
  north, at 111194.92664455874 metres, is out of range, the distance is reported and the
  database is unchanged.
\<close>

theorem distance_check_inclusive_witness:
  "r_outcome (student_app demo_env demo_db (Some ()) demo_form) = Accepted (Fin 0)
   \<and> length (attendance (r_db (student_app demo_env demo_db (Some ()) demo_form))) = 1
   \<and> r_outcome (student_app demo_env demo_db (Some ()) far_form)
       = OutOfRange (Fin (7641257174711981 / 2 ^ 36))
   \<and> r_db (student_app demo_env demo_db (Some ()) far_form) = demo_db"
proof -
  have rd: "read_qr_code demo_env () =
      Some (qr_payload ''qr-1'' ''Mathematics'' ''Period 1''
                  (Fin anchor_lat) (Fin anchor_lon)
                  ''2024-01-01T10:00:00'' ''2024-01-01T10:30:00'')"
    using demo_read by (simp add: demo_token_def)
  have n: "calculate_distance (arith demo_env) (Fin anchor_lat) (Fin anchor_lon)
             (student_lat demo_form) (student_lon demo_form) = Inr (Fin 0)"
    using demo_distance by (simp add: sample_arith)
  have f: "calculate_distance (arith demo_env) (Fin anchor_lat) (Fin anchor_lon)
             (student_lat far_form) (student_lon far_form)
             = Inr (Fin (7641257174711981 / 2 ^ 36))"
    using far_distance by (simp add: sample_arith)
  have big: "1000 < (7641257174711981 / 2 ^ 36 :: real)"
    by simp
  have fresh: "count_existing (attendance demo_db) n s p t = 0" for n s p t
    by (simp add: count_existing_def demo_db_def)
  have fn: "submit_attendance demo_form" "strip (student_name demo_form) \<noteq> []"
    "strip (student_roll demo_form) \<noteq> []"
    by (simp_all add: demo_filled)
  have ff: "submit_attendance far_form" "strip (student_name far_form) \<noteq> []"
    "strip (student_roll far_form) \<noteq> []"
    by (simp_all add: far_form_def demo_form_def demo_names)
  show ?thesis
    using distance_check_inclusive [OF rd demo_lookup fn fresh n]
      distance_check_inclusive [OF rd demo_lookup ff fresh f] big
    by (simp add: demo_db_def)
qed

text \<open>
  When the distance computation raises, the \<^verbatim>\<open>except Exception\<close> around the submission
  catches the error: the run ends with the database-error message and writes nothing.
  This is what happens to a claimant at (12, -109.5) with a token anchored at
  (-12, 70.5).
\<close>

lemma distance_error_no_record:
  assumes "read_qr_code env img = Some (qr_payload k subj per lat lon ca ea)"
    and "lookup_active (qr_codes d) (Some k) = Some qr_record"
    and "submit_attendance f" "strip (student_name f) \<noteq> []" "strip (student_roll f) \<noteq> []"
    and "count_existing (attendance d) (strip (student_name f)) (Some subj) (Some per)
           (now_today env) = 0"
    and "calculate_distance (arith env) lat lon (student_lat f) (student_lon f) = Inl e"
  shows "r_outcome (student_app env d (Some img) f) = DatabaseError e
       \<and> r_db (student_app env d (Some img) f) = d"
  using assms
  by (simp add: student_app_payload verify_and_mark_payload submit_def submit_check_payload
      submit_finish_def ebind_def)

text \<open>
  The expiry is read for the information block only: neither the parser of the expiry
  text nor the clock reading compared with it has any influence on the outcome of a run
  or on the database it leaves.
\<close>

lemma text_value_ignores_expiry:
  "text_value (env\<lparr>fromisoformat := g, now_banner := t\<rparr>) = text_value env"
proof
  fix p show "text_value (env\<lparr>fromisoformat := g, now_banner := t\<rparr>) p = text_value env p"
    by (cases p) simp_all
qed

lemma env_fields_ignore_expiry:
  "float_of_str (env\<lparr>fromisoformat := g, now_banner := t\<rparr>) = float_of_str env"
  "now_today (env\<lparr>fromisoformat := g, now_banner := t\<rparr>) = now_today env"
  "now_stamp (env\<lparr>fromisoformat := g, now_banner := t\<rparr>) = now_stamp env"
  "uuid4 (env\<lparr>fromisoformat := g, now_banner := t\<rparr>) = uuid4 env"
  "detectAndDecode (env\<lparr>fromisoformat := g, now_banner := t\<rparr>) = detectAndDecode env"
  "json_loads (env\<lparr>fromisoformat := g, now_banner := t\<rparr>) = json_loads env"
  "image_mode (env\<lparr>fromisoformat := g, now_banner := t\<rparr>) = image_mode env"
  "arith (env\<lparr>fromisoformat := g, now_banner := t\<rparr>) = arith env"
  by simp_all

lemma submit_check_ignores_expiry:
  "submit_check (env\<lparr>fromisoformat := g, now_banner := t\<rparr>) d qr_data f
     = submit_check env d qr_data f"
  unfolding submit_check_def text_value_ignores_expiry env_fields_ignore_expiry ..

lemma submit_commit_ignores_expiry:
  "submit_commit (env\<lparr>fromisoformat := g, now_banner := t\<rparr>) d qr_data f
     = submit_commit env d qr_data f"
  unfolding submit_commit_def text_value_ignores_expiry attendance_row_def
    env_fields_ignore_expiry ..

lemma verify_and_mark_ignores_expiry:
  "verify_and_mark (env\<lparr>fromisoformat := g, now_banner := t\<rparr>) d qr_data f
     = verify_and_mark env d qr_data f"
  unfolding verify_and_mark_def submit_def submit_finish_def text_value_ignores_expiry
    submit_check_ignores_expiry submit_commit_ignores_expiry ..

lemma read_qr_code_ignores_expiry:
  "read_qr_code (env\<lparr>fromisoformat := g, now_banner := t\<rparr>) img = read_qr_code env img"
  unfolding read_qr_code_def env_fields_ignore_expiry ..

lemma student_app_ignores_expiry:
  "r_outcome (student_app (env\<lparr>fromisoformat := g, now_banner := t\<rparr>) d up f)
     = r_outcome (student_app env d up f)
   \<and> r_db (student_app (env\<lparr>fromisoformat := g, now_banner := t\<rparr>) d up f)
     = r_db (student_app env d up f)"
  unfolding student_app_def read_qr_code_ignores_expiry verify_and_mark_ignores_expiry
  by (simp add: case_prod_beta split: option.splits sum.splits bool.splits)

text \<open>
  C1 fails on the code. The sample token expired at 10:30; at 11:00 the information
  block shows the expiry warning, and the submission is accepted all the same: a record
  with status present and the timestamp of 11:00 is written.
\<close>

theorem expired_token_still_accepted:
  "r_banner (student_app late_env demo_db (Some ()) demo_form) = Some (ExpiredAt demo_expiry)
   \<and> r_outcome (student_app late_env demo_db (Some ()) demo_form) = Accepted (Fin 0)
   \<and> map (\<lambda>r. (a_student_name r, a_subject r, a_status r, a_timestamp r))
        (attendance (r_db (student_app late_env demo_db (Some ()) demo_form)))
      = [(''Asha Rao'', ''Mathematics'', ''present'', DateTime 738886 39602000000)]"
proof -
  have b: "expiry_banner late_env demo_token = ExpiredAt demo_expiry"
    by (simp add: expiry_banner_def demo_payload payload_items late_env_def demo_env_def
        dt_gt_def demo_expiry_def)
  have c: "count_existing (attendance demo_db) n s p t = 0" for n s p t
    by (simp add: count_existing_def demo_db_def)
  have v: "verify_and_mark late_env demo_db demo_token demo_form =
             (Accepted (Fin 0),
              demo_db\<lparr>attendance := attendance demo_db @
                         [attendance_row late_env demo_db demo_form ''Mathematics'' ''Period 1''
                            (PReal (Fin anchor_lat)) (PReal (Fin anchor_lon))],
                      attendance_seq := Suc (attendance_seq demo_db)\<rparr>)"
    unfolding demo_payload
    by (simp add: verify_and_mark_payload demo_lookup demo_filled submit_def
        submit_check_payload c sample_arith demo_distance ebind_def submit_finish_def submit_commit_payload)
  have run: "student_app late_env demo_db (Some ()) demo_form =
      \<lparr>r_banner = Some (ExpiredAt demo_expiry), r_outcome = Accepted (Fin 0),
       r_db = demo_db\<lparr>attendance := attendance demo_db @
                         [attendance_row late_env demo_db demo_form ''Mathematics'' ''Period 1''
                            (PReal (Fin anchor_lat)) (PReal (Fin anchor_lon))],
                      attendance_seq := Suc (attendance_seq demo_db)\<rparr>\<rparr>"
    using student_app_payload [OF late_read [unfolded demo_payload], of demo_db demo_form]
      b v
    unfolding demo_payload by simp
  show ?thesis
    unfolding run
    by (simp add: demo_db_def attendance_row_def demo_filled late_env_def demo_env_def)
qed

section \<open>RedemptionEngine: duplicates\<close>

lemma submit_payload_fresh:
  assumes "count_existing (attendance d) (strip (student_name f)) (Some subj) (Some per)
             (now_today env) = 0"
  shows "fst (submit env d (qr_payload k subj per lat lon ca ea) f) \<noteq> AlreadyMarked"
  using assms
  by (simp add: submit_def submit_check_payload submit_finish_def submit_commit_payload ebind_def
      split: sum.splits)

lemma submit_payload_dup:
  assumes "0 < count_existing (attendance d) (strip (student_name f)) (Some subj) (Some per)
             (now_today env)"
  shows "submit env d (qr_payload k subj per lat lon ca ea) f = (AlreadyMarked, d)"
  using assms
  by (simp add: submit_def submit_check_payload submit_finish_def)

lemma already_marked_iff:
  assumes "read_qr_code env img = Some (qr_payload k subj per lat lon ca ea)"
    and "lookup_active (qr_codes d) (Some k) = Some qr_record"
    and "submit_attendance f" "strip (student_name f) \<noteq> []" "strip (student_roll f) \<noteq> []"
  shows "r_outcome (student_app env d (Some img) f) = AlreadyMarked
           \<longleftrightarrow> 0 < count_existing (attendance d) (strip (student_name f)) (Some subj) (Some per)
                     (now_today env)"
proof (cases "0 < count_existing (attendance d) (strip (student_name f)) (Some subj) (Some per)
                     (now_today env)")
  case True
  then show ?thesis
    using assms by (simp add: student_app_payload verify_and_mark_payload submit_payload_dup)
next
  case False
  then have "count_existing (attendance d) (strip (student_name f)) (Some subj) (Some per)
                     (now_today env) = 0" by simp
  from submit_payload_fresh [OF this] False show ?thesis
    using assms by (simp add: student_app_payload verify_and_mark_payload)
qed

lemma count_existing_edit:
  "count_existing (attendance (edit_attendance d i st who why)) n s p t
     = count_existing (attendance d) n s p t"
  by (simp add: count_existing_def edit_attendance_def filter_map o_def if_distrib
      cong: if_cong)

lemma qr_codes_edit: "qr_codes (edit_attendance d i st who why) = qr_codes d"
  by (simp add: edit_attendance_def)

text \<open>
  Every record of \<^verbatim>\<open>attendance\<close> comes from a redemption: the table starts empty, a run
  of \<^verbatim>\<open>student_app\<close> leaves it alone or appends one record marked \<^verbatim>\<open>'student_app'\<close>, and
  the edit form changes neither the origin nor the number of records.
\<close>

lemma from_redemption_row: "from_redemption (attendance_row env d f s p pl pn)"
  by (simp add: from_redemption_def attendance_row_def)

lemma submit_commit_appends:
  assumes "submit_commit env d v f = Inr d'"
  shows "\<exists>row. from_redemption row
           \<and> d' = d\<lparr>attendance := attendance d @ [row],
                    attendance_seq := Suc (attendance_seq d)\<rparr>"
proof -
  have "\<exists>s p pl pn. d' = d\<lparr>attendance := attendance d @ [attendance_row env d f s p pl pn],
                            attendance_seq := Suc (attendance_seq d)\<rparr>"
    using assms
    by (auto simp: submit_commit_def ebind_def split: sum.splits option.splits)
  then show ?thesis
    using from_redemption_row by blast
qed

lemma student_app_db:
  "r_db (student_app env d up f) = d
   \<or> (\<exists>row. from_redemption row
         \<and> r_db (student_app env d up f)
             = d\<lparr>attendance := attendance d @ [row],
                 attendance_seq := Suc (attendance_seq d)\<rparr>)"
proof -
  have s: "snd (submit env d v f) = d
     \<or> (\<exists>row. from_redemption row
           \<and> snd (submit env d v f)
               = d\<lparr>attendance := attendance d @ [row],
                   attendance_seq := Suc (attendance_seq d)\<rparr>)" for v
    using submit_commit_appends [of env d v f]
    by (auto simp: submit_def submit_finish_def split: sum.splits decision.splits)
  have v: "snd (verify_and_mark env d v f) = d
     \<or> (\<exists>row. from_redemption row
           \<and> snd (verify_and_mark env d v f)
               = d\<lparr>attendance := attendance d @ [row],
                   attendance_seq := Suc (attendance_seq d)\<rparr>)" for v
    using s [of v]
    by (auto simp: verify_and_mark_def split: sum.splits option.splits)
  have r: "r_db (student_app env d up f) = d
     \<or> (\<exists>v. r_db (student_app env d up f) = snd (verify_and_mark env d v f))"
    by (auto simp: student_app_def case_prod_beta split: option.splits sum.splits bool.splits)
  show ?thesis
    using r v by metis
qed

lemma all_from_redemption_student_app:
  assumes "all_from_redemption d"
  shows "all_from_redemption (r_db (student_app env d up f))"
  using student_app_db [of env d up f] assms
  by (auto simp: all_from_redemption_def)

lemma all_from_redemption_edit:
  assumes "all_from_redemption d"
  shows "all_from_redemption (edit_attendance d i st who why)"
  using assms
  by (auto simp: all_from_redemption_def edit_attendance_def from_redemption_def list_all_iff)

lemma all_from_redemption_empty:
  "all_from_redemption \<lparr>qr_codes = qs, attendance = [], attendance_seq = n\<rparr>"
  by (simp add: all_from_redemption_def)


lemma marked_db_rows:
  "attendance marked_db =
     [attendance_row demo_env demo_db demo_form ''Mathematics'' ''Period 1''
        (PReal (Fin anchor_lat)) (PReal (Fin anchor_lon))]"
  "qr_codes marked_db = [demo_row]"
  by (simp_all add: marked_db_def demo_form_def demo_db_def)

text \<open>
  C2. For a redemption that reaches the duplicate check (the token is in the wire format
  and active in the store, the form is filled in and submitted), in a table whose
  records all come from redemptions: the outcome is "already marked" exactly when a
  record created through redemption exists for the claimant's name, the token's subject
  and period and today's date; then the database is unchanged. An administrative status
  edit is not subject to the check and does not change its verdict.
\<close>

theorem duplicate_already_marked:
  assumes "read_qr_code env img = Some (qr_payload k subj per lat lon ca ea)"
    and "lookup_active (qr_codes d) (Some k) = Some qr_record"
    and "submit_attendance f" "strip (student_name f) \<noteq> []" "strip (student_roll f) \<noteq> []"
    and "all_from_redemption d"
  shows "(r_outcome (student_app env d (Some img) f) = AlreadyMarked
            \<longleftrightarrow> (\<exists>r\<in>set (attendance d). from_redemption r
                   \<and> same_key r (strip (student_name f)) subj per (now_today env)))
       \<and> (r_outcome (student_app env d (Some img) f) = AlreadyMarked
            \<longrightarrow> r_db (student_app env d (Some img) f) = d)
       \<and> (\<forall>i st who why.
            (r_outcome (student_app env (edit_attendance d i st who why) (Some img) f)
               = AlreadyMarked)
            = (r_outcome (student_app env d (Some img) f) = AlreadyMarked))"
proof -
  have inv: "\<forall>r\<in>set (attendance d). from_redemption r"
    using assms(6) by (simp add: all_from_redemption_def list_all_iff)
  have 1: "r_outcome (student_app env d (Some img) f) = AlreadyMarked
            \<longleftrightarrow> (\<exists>r\<in>set (attendance d). from_redemption r
                   \<and> same_key r (strip (student_name f)) subj per (now_today env))"
    using inv by (auto simp: already_marked_iff [OF assms(1-5)] count_existing_pos)
  have 2: "r_outcome (student_app env d (Some img) f) = AlreadyMarked
            \<longrightarrow> r_db (student_app env d (Some img) f) = d"
  proof
    assume "r_outcome (student_app env d (Some img) f) = AlreadyMarked"
    then have "0 < count_existing (attendance d) (strip (student_name f)) (Some subj) (Some per)
                     (now_today env)"
      using already_marked_iff [OF assms(1-5)] by simp
    then show "r_db (student_app env d (Some img) f) = d"
      using assms(1-5)
      by (simp add: student_app_payload verify_and_mark_payload submit_payload_dup)
  qed
  have 3: "(r_outcome (student_app env (edit_attendance d i st who why) (Some img) f)
               = AlreadyMarked)
            = (r_outcome (student_app env d (Some img) f) = AlreadyMarked)" for i st who why
  proof -
    have l: "lookup_active (qr_codes (edit_attendance d i st who why)) (Some k) = Some qr_record"
      using assms(2) by (simp add: qr_codes_edit)
    show ?thesis
      by (simp add: already_marked_iff [OF assms(1) l assms(3-5)]
          already_marked_iff [OF assms(1-5)] count_existing_edit)
  qed
  show ?thesis using 1 2 3 by blast
qed

text \<open>
  C2 at a concrete input: after the sample claimant has redeemed the sample token, the
  same submission is answered "already marked" and writes nothing, also after the record
  has been edited to absent.
\<close>

theorem duplicate_already_marked_witness:
  "r_outcome (student_app demo_env marked_db (Some ()) demo_form) = AlreadyMarked
   \<and> r_db (student_app demo_env marked_db (Some ()) demo_form) = marked_db
   \<and> r_outcome (student_app demo_env
                  (edit_attendance marked_db 1 ''absent'' ''FAC001'' ''left early'')
                  (Some ()) demo_form) = AlreadyMarked"
proof -
  have rd: "read_qr_code demo_env () =
      Some (qr_payload ''qr-1'' ''Mathematics'' ''Period 1'' (Fin anchor_lat) (Fin anchor_lon)
              ''2024-01-01T10:00:00'' ''2024-01-01T10:30:00'')"
    using demo_read by (simp add: demo_payload)
  have l: "lookup_active (qr_codes marked_db) (Some ''qr-1'') = Some demo_row"
    by (simp add: marked_db_rows lookup_active_def demo_row_def)
  have f: "submit_attendance demo_form" "strip (student_name demo_form) \<noteq> []"
    "strip (student_roll demo_form) \<noteq> []"
    by (simp_all add: demo_filled)
  have inv: "all_from_redemption marked_db"
    by (simp add: all_from_redemption_def marked_db_rows from_redemption_row)
  have ex: "\<exists>r\<in>set (attendance marked_db). from_redemption r
              \<and> same_key r (strip (student_name demo_form)) ''Mathematics'' ''Period 1''
                  (now_today demo_env)"
    by (simp add: marked_db_rows from_redemption_def same_key_def attendance_row_def
        demo_env_def)
  show ?thesis
    using duplicate_already_marked [OF rd l f inv] ex by blast
qed

section \<open>TokenStore: the lookup\<close>

text \<open>
  C6. The lookup returns a row if and only if a row with that identifier and a set
  active flag is in the store, and the row returned is such a row. When there is none,
  whether because the identifier was never stored or because its row is inactive, the
  run is the same: the invalid-code message and an unchanged database.
\<close>

theorem lookup_active_live_only:
  "(lookup_active rows (Some k) \<noteq> None \<longleftrightarrow> (\<exists>r\<in>set rows. q_qr_id r = k \<and> q_is_active r))
   \<and> (\<forall>r. lookup_active rows (Some k) = Some r
          \<longrightarrow> r \<in> set rows \<and> q_qr_id r = k \<and> q_is_active r)
   \<and> (read_qr_code env img = Some (qr_payload k subj per lat lon ca ea)
        \<and> \<not> (\<exists>r\<in>set (qr_codes d). q_qr_id r = k \<and> q_is_active r)
      \<longrightarrow> student_app env d (Some img) f =
            \<lparr>r_banner = Some (expiry_banner env (qr_payload k subj per lat lon ca ea)),
             r_outcome = InvalidQR, r_db = d\<rparr>)"
proof -
  have 1: "(lookup_active rs (Some k) \<noteq> None) = (\<exists>r\<in>set rs. q_qr_id r = k \<and> q_is_active r)"
    for rs
    by (auto simp: lookup_active_def find_None_iff)
  have 2: "\<forall>r. lookup_active rows (Some k) = Some r
          \<longrightarrow> r \<in> set rows \<and> q_qr_id r = k \<and> q_is_active r"
    by (auto simp: lookup_active_def find_Some_iff)
  have 3: "read_qr_code env img = Some (qr_payload k subj per lat lon ca ea)
        \<and> \<not> (\<exists>r\<in>set (qr_codes d). q_qr_id r = k \<and> q_is_active r)
      \<longrightarrow> student_app env d (Some img) f =
            \<lparr>r_banner = Some (expiry_banner env (qr_payload k subj per lat lon ca ea)),
             r_outcome = InvalidQR, r_db = d\<rparr>"
  proof
    assume a: "read_qr_code env img = Some (qr_payload k subj per lat lon ca ea)
        \<and> \<not> (\<exists>r\<in>set (qr_codes d). q_qr_id r = k \<and> q_is_active r)"
    then have "lookup_active (qr_codes d) (Some k) = None"
      using 1 [of "qr_codes d"] by blast
    then show "student_app env d (Some img) f =
            \<lparr>r_banner = Some (expiry_banner env (qr_payload k subj per lat lon ca ea)),
             r_outcome = InvalidQR, r_db = d\<rparr>"
      using a by (simp add: student_app_payload verify_and_mark_payload)
  qed
  show ?thesis using 1 [of rows] 2 3 by blast
qed

text \<open>
  C6 at concrete inputs: the sample store finds the token; the store with the flag
  cleared and the store without the row give the same run.
\<close>

theorem lookup_active_live_only_witness:
  "lookup_active (qr_codes demo_db) (Some ''qr-1'') = Some demo_row
   \<and> student_app demo_env inactive_db (Some ()) demo_form =
       \<lparr>r_banner = Some (ValidUntil demo_expiry), r_outcome = InvalidQR, r_db = inactive_db\<rparr>
   \<and> student_app demo_env empty_db (Some ()) demo_form =
       \<lparr>r_banner = Some (ValidUntil demo_expiry), r_outcome = InvalidQR, r_db = empty_db\<rparr>"
proof -
  have rd: "read_qr_code demo_env () =
      Some (qr_payload ''qr-1'' ''Mathematics'' ''Period 1'' (Fin anchor_lat) (Fin anchor_lon)
              ''2024-01-01T10:00:00'' ''2024-01-01T10:30:00'')"
    using demo_read by (simp add: demo_payload)
  have b: "expiry_banner demo_env
             (qr_payload ''qr-1'' ''Mathematics'' ''Period 1'' (Fin anchor_lat) (Fin anchor_lon)
               ''2024-01-01T10:00:00'' ''2024-01-01T10:30:00'') = ValidUntil demo_expiry"
    by (simp add: expiry_banner_def payload_items demo_env_def dt_gt_def demo_expiry_def)
  have i: "\<not> (\<exists>r\<in>set (qr_codes inactive_db). q_qr_id r = ''qr-1'' \<and> q_is_active r)"
    by (simp add: inactive_db_def demo_db_def)
  have e: "\<not> (\<exists>r\<in>set (qr_codes empty_db). q_qr_id r = ''qr-1'' \<and> q_is_active r)"
    by (simp add: empty_db_def demo_db_def)
  have a: "\<exists>r\<in>set (qr_codes demo_db). q_qr_id r = ''qr-1'' \<and> q_is_active r"
    by (simp add: demo_db_def demo_row_def)
  show ?thesis
    using lookup_active_live_only [of "qr_codes demo_db" "''qr-1''" demo_env "()"
        "''Mathematics''" "''Period 1''" "Fin anchor_lat" "Fin anchor_lon"
        "''2024-01-01T10:00:00''" "''2024-01-01T10:30:00''" inactive_db demo_form]
      lookup_active_live_only [of "qr_codes demo_db" "''qr-1''" demo_env "()"
        "''Mathematics''" "''Period 1''" "Fin anchor_lat" "Fin anchor_lon"
        "''2024-01-01T10:00:00''" "''2024-01-01T10:30:00''" empty_db demo_form]
      rd b i e a demo_lookup
    by simp
qed

section \<open>RedemptionEngine: the stored row is not read\<close>

text \<open>
  C10. For a token in the wire format whose identifier is found active in two stores
  with the same attendance table, the stored rows being arbitrary otherwise (they may
  differ in subject, period, coordinates and expiry): both runs show the same expiry
  line, end with the same outcome and leave the same attendance records.
\<close>

theorem stored_row_irrelevant:
  assumes "read_qr_code env img = Some (qr_payload k subj per lat lon ca ea)"
    and "lookup_active (qr_codes d1) (Some k) = Some row1"
    and "lookup_active (qr_codes d2) (Some k) = Some row2"
    and "attendance d1 = attendance d2" "attendance_seq d1 = attendance_seq d2"
  shows "r_banner (student_app env d1 (Some img) f) = r_banner (student_app env d2 (Some img) f)
       \<and> r_outcome (student_app env d1 (Some img) f) = r_outcome (student_app env d2 (Some img) f)
       \<and> attendance (r_db (student_app env d1 (Some img) f))
           = attendance (r_db (student_app env d2 (Some img) f))"
proof -
  have c: "submit_check env d1 v f = submit_check env d2 v f" for v
    using assms(4) by (simp add: submit_check_def)
  have a: "attendance_row env d1 f s p pl pn = attendance_row env d2 f s p pl pn" for s p pl pn
    using assms(5) by (simp add: attendance_row_def)
  have s: "fst (submit env d1 (qr_payload k subj per lat lon ca ea) f)
             = fst (submit env d2 (qr_payload k subj per lat lon ca ea) f)
         \<and> attendance (snd (submit env d1 (qr_payload k subj per lat lon ca ea) f))
             = attendance (snd (submit env d2 (qr_payload k subj per lat lon ca ea) f))"
    using assms(4)
    by (simp add: submit_def c submit_finish_def submit_commit_payload a
        split: sum.splits decision.splits)
  show ?thesis
    using assms s
    by (simp add: student_app_payload verify_and_mark_payload)
qed

text \<open>
  C10 at a concrete input: the sample store and a store whose row says History, Period 6,
  anchor (0, 0) and an expiry in 2023 both accept the sample claimant and write the same
  record.
\<close>

theorem stored_row_irrelevant_witness:
  "r_outcome (student_app demo_env demo_db (Some ()) demo_form) = Accepted (Fin 0)
   \<and> r_outcome (student_app demo_env other_db (Some ()) demo_form) = Accepted (Fin 0)
   \<and> attendance (r_db (student_app demo_env other_db (Some ()) demo_form))
       = attendance marked_db"
proof -
  have rd: "read_qr_code demo_env () =
      Some (qr_payload ''qr-1'' ''Mathematics'' ''Period 1'' (Fin anchor_lat) (Fin anchor_lon)
              ''2024-01-01T10:00:00'' ''2024-01-01T10:30:00'')"
    using demo_read by (simp add: demo_payload)
  have l: "lookup_active (qr_codes other_db) (Some ''qr-1'') =
             Some (demo_row\<lparr>q_subject := ''History'', q_period := ''Period 6'',
                 q_latitude := Fin 0, q_longitude := Fin 0,
                 q_expires_at := ''2023-01-01T00:00:00''\<rparr>)"
    by (simp add: other_db_def demo_db_def lookup_active_def demo_row_def)
  have e: "attendance demo_db = attendance other_db" "attendance_seq demo_db = attendance_seq other_db"
    by (simp_all add: other_db_def)
  have c: "count_existing (attendance demo_db) n s p t = 0" for n s p t
    by (simp add: count_existing_def demo_db_def)
  have run: "student_app demo_env demo_db (Some ()) demo_form =
      \<lparr>r_banner = Some (expiry_banner demo_env demo_token), r_outcome = Accepted (Fin 0),
       r_db = demo_db\<lparr>attendance := attendance demo_db @
                         [attendance_row demo_env demo_db demo_form ''Mathematics'' ''Period 1''
                            (PReal (Fin anchor_lat)) (PReal (Fin anchor_lon))],
                      attendance_seq := Suc (attendance_seq demo_db)\<rparr>\<rparr>"
    unfolding demo_payload
    by (simp add: student_app_payload [OF rd] verify_and_mark_payload demo_lookup demo_filled
        submit_def submit_check_payload c sample_arith demo_distance ebind_def submit_finish_def
        submit_commit_payload)
  have m: "attendance (r_db (student_app demo_env demo_db (Some ()) demo_form))
             = attendance marked_db"
    unfolding run by (simp add: marked_db_rows demo_db_def)
  show ?thesis
    using stored_row_irrelevant [OF rd demo_lookup l e, of demo_form] run m
    by simp
qed

section \<open>TokenCodec: the round trip\<close>

text \<open>
  A code that shows the text \<^verbatim>\<open>token-json\<close> is read back as the sample token from a
  colour picture.
\<close>

lemma colour_picture_read: "read_qr_code codec_env (Mode_RGB, ''token-json'') = Some demo_token"
  by (simp add: read_qr_code_def codec_env_def demo_token_not_null)

text \<open>
  C4 fails on the code. For every token and every serialiser, the image that
  \<^verbatim>\<open>generate_qr_code\<close> makes is of mode 1, black on white; \<^verbatim>\<open>read_qr_code\<close> hands it
  unconverted to the colour conversion, which raises, and returns \<^verbatim>\<open>None\<close>, whatever
  the detector and the parser would have made of the picture. A run of \<^verbatim>\<open>student_app\<close>
  on that image ends with the could-not-read message.
\<close>

theorem generated_code_not_read_back:
  "generate_qr_code json_dumps qr_make_image token = Inr (Mode_1, json_dumps token)
   \<and> read_qr_code (env\<lparr>image_mode := fst\<rparr>) (Mode_1, json_dumps token) = None
   \<and> student_app (env\<lparr>image_mode := fst\<rparr>) d (Some (Mode_1, json_dumps token)) f
       = \<lparr>r_banner = None, r_outcome = Unreadable, r_db = d\<rparr>"
  by (simp add: generate_qr_code_def qr_make_image_def read_qr_code_def student_app_def)

section \<open>TokenCodec: when decoding gives nothing\<close>

text \<open>
  C5 as stated fails: when the code holds the JSON object \<^verbatim>\<open>{"qr_id": "qr-1"}\<close>, which
  lacks every other field of a token, \<^verbatim>\<open>read_qr_code\<close> returns that object, not
  \<^verbatim>\<open>None\<close>; the caller then subscripts a missing key outside any \<^verbatim>\<open>try\<close>.
\<close>

theorem read_qr_code_returns_partial_payload:
  "read_qr_code partial_env () = Some (JDict [(''qr_id'', JStr ''qr-1'')])
   \<and> r_outcome (student_app partial_env demo_db (Some ()) demo_form) = Crash KeyError"
proof -
  have r: "read_qr_code partial_env () = Some (JDict [(''qr_id'', JStr ''qr-1'')])"
    by (simp add: read_qr_code_def partial_env_def demo_env_def)
  show ?thesis
    by (simp add: r student_app_def show_qr_info_def ebind_def)
qed

text \<open>
  C5, as the code has it. \<^verbatim>\<open>read_qr_code\<close> returns \<^verbatim>\<open>None\<close> whenever the colour
  conversion raises, the detector raises, no code is found, the decoded text is empty, or
  the text is not valid JSON. What it returns otherwise is what \<^verbatim>\<open>json.loads\<close> made of the
  text, whatever it holds: no field of a token is looked at. \<^verbatim>\<open>None\<close> is recoverable:
  the run ends with the could-not-read message and an unchanged database; so does a
  JSON object without the key \<^verbatim>\<open>qr_id\<close>.
\<close>

theorem read_qr_code_null_cases:
  "(\<not> cvt_color_accepts (image_mode env img) \<longrightarrow> read_qr_code env img = None)
   \<and> (detectAndDecode env img = Inl e \<longrightarrow> read_qr_code env img = None)
   \<and> (detectAndDecode env img = Inr (data, found)
        \<and> (\<not> found \<or> data = [] \<or> json_loads env data = Inl e')
      \<longrightarrow> read_qr_code env img = None)
   \<and> (cvt_color_accepts (image_mode env img) \<and> detectAndDecode env img = Inr (data, True)
        \<and> data \<noteq> [] \<and> json_loads env data = Inr v \<and> v \<noteq> JNull
      \<longrightarrow> read_qr_code env img = Some v)
   \<and> (read_qr_code env img = Some w
      \<longrightarrow> (\<exists>text. detectAndDecode env img = Inr (text, True) \<and> json_loads env text = Inr w))
   \<and> (read_qr_code env img = None
      \<longrightarrow> student_app env d (Some img) f
            = \<lparr>r_banner = None, r_outcome = Unreadable, r_db = d\<rparr>)
   \<and> (read_qr_code env img = Some (JDict kvs) \<and> ''qr_id'' \<notin> set (map fst kvs)
      \<longrightarrow> student_app env d (Some img) f
            = \<lparr>r_banner = None, r_outcome = Unreadable, r_db = d\<rparr>)"
proof -
  have 1: "\<not> cvt_color_accepts (image_mode env img) \<longrightarrow> read_qr_code env img = None"
    by (simp add: read_qr_code_def)
  have 2: "detectAndDecode env img = Inl e \<longrightarrow> read_qr_code env img = None"
    by (simp add: read_qr_code_def)
  have 3: "detectAndDecode env img = Inr (data, found)
        \<and> (\<not> found \<or> data = [] \<or> json_loads env data = Inl e')
      \<longrightarrow> read_qr_code env img = None"
    by (auto simp: read_qr_code_def)
  have 4: "cvt_color_accepts (image_mode env img) \<and> detectAndDecode env img = Inr (data, True)
        \<and> data \<noteq> [] \<and> json_loads env data = Inr v \<and> v \<noteq> JNull
      \<longrightarrow> read_qr_code env img = Some v"
    by (simp add: read_qr_code_def)
  have 5: "read_qr_code env img = Some w
      \<longrightarrow> (\<exists>text. detectAndDecode env img = Inr (text, True) \<and> json_loads env text = Inr w)"
    by (auto simp: read_qr_code_def split: sum.splits prod.splits if_splits)
  have 6: "read_qr_code env img = None
        \<longrightarrow> student_app env d (Some img) f
              = \<lparr>r_banner = None, r_outcome = Unreadable, r_db = d\<rparr>"
    by (simp add: student_app_def)
  have 7: "read_qr_code env img = Some (JDict kvs) \<and> ''qr_id'' \<notin> set (map fst kvs)
        \<longrightarrow> student_app env d (Some img) f
              = \<lparr>r_banner = None, r_outcome = Unreadable, r_db = d\<rparr>"
    by (auto simp: student_app_def)
  show ?thesis using 1 2 3 4 5 6 7 by blast
qed

text \<open>
  C5 at concrete inputs: a greyscale image, an image without a code and a code that is
  not JSON all decode to \<^verbatim>\<open>None\<close> and end in the could-not-read message; the sample code
  decodes to the sample token, which is what the parser made of its text; an object
  without \<^verbatim>\<open>qr_id\<close> ends in the could-not-read message.
\<close>

theorem read_qr_code_null_cases_witness:
  "read_qr_code gray_env () = None
   \<and> student_app gray_env demo_db (Some ()) demo_form
       = \<lparr>r_banner = None, r_outcome = Unreadable, r_db = demo_db\<rparr>
   \<and> read_qr_code no_code_env () = None
   \<and> student_app no_code_env demo_db (Some ()) demo_form
       = \<lparr>r_banner = None, r_outcome = Unreadable, r_db = demo_db\<rparr>
   \<and> read_qr_code bad_json_env () = None
   \<and> student_app bad_json_env demo_db (Some ()) demo_form
       = \<lparr>r_banner = None, r_outcome = Unreadable, r_db = demo_db\<rparr>
   \<and> read_qr_code demo_env () = Some demo_token
   \<and> (\<exists>text. detectAndDecode demo_env () = Inr (text, True)
              \<and> json_loads demo_env text = Inr demo_token)
   \<and> student_app no_id_env demo_db (Some ()) demo_form
       = \<lparr>r_banner = None, r_outcome = Unreadable, r_db = demo_db\<rparr>"
proof -
  have y: "\<not> cvt_color_accepts (image_mode gray_env ())"
    by (simp add: gray_env_def)
  have n: "detectAndDecode no_code_env () = Inr ([], False)"
    by (simp add: no_code_env_def)
  have b: "detectAndDecode bad_json_env () = Inr (''token-json'', True)"
    "json_loads bad_json_env ''token-json'' = Inl JSONDecodeError"
    by (simp_all add: bad_json_env_def demo_env_def)
  have g: "cvt_color_accepts (image_mode demo_env ())"
    "detectAndDecode demo_env () = Inr (''token-json'', True)"
    "json_loads demo_env ''token-json'' = Inr demo_token"
    by (simp_all add: demo_env_def)
  have i: "read_qr_code no_id_env () = Some (JDict [(''subject'', JStr ''Mathematics'')])"
    by (simp add: read_qr_code_def no_id_env_def demo_env_def)
  note T = read_qr_code_null_cases
  have Y: "read_qr_code gray_env () = None"
    by (rule mp [OF T [where env = gray_env and img = "()", THEN conjunct1] y])
  have Y': "student_app gray_env demo_db (Some ()) demo_form
       = \<lparr>r_banner = None, r_outcome = Unreadable, r_db = demo_db\<rparr>"
    by (rule mp [OF T [where env = gray_env and img = "()", THEN conjunct2, THEN conjunct2,
          THEN conjunct2, THEN conjunct2, THEN conjunct2, THEN conjunct1] Y])
  have A: "read_qr_code no_code_env () = None"
    by (rule mp [OF T [where env = no_code_env and img = "()" and data = "[]"
            and found = False, THEN conjunct2, THEN conjunct2, THEN conjunct1]])
       (simp add: n)
  have A': "student_app no_code_env demo_db (Some ()) demo_form
       = \<lparr>r_banner = None, r_outcome = Unreadable, r_db = demo_db\<rparr>"
    by (rule mp [OF T [where env = no_code_env and img = "()", THEN conjunct2, THEN conjunct2,
          THEN conjunct2, THEN conjunct2, THEN conjunct2, THEN conjunct1] A])
  have B: "read_qr_code bad_json_env () = None"
    by (rule mp [OF T [where env = bad_json_env and img = "()" and data = "''token-json''"
            and found = True and e' = JSONDecodeError,
            THEN conjunct2, THEN conjunct2, THEN conjunct1]])
       (simp add: b)
  have B': "student_app bad_json_env demo_db (Some ()) demo_form
       = \<lparr>r_banner = None, r_outcome = Unreadable, r_db = demo_db\<rparr>"
    by (rule mp [OF T [where env = bad_json_env and img = "()", THEN conjunct2, THEN conjunct2,
          THEN conjunct2, THEN conjunct2, THEN conjunct2, THEN conjunct1] B])
  have G: "read_qr_code demo_env () = Some demo_token"
    by (rule mp [OF T [where env = demo_env and img = "()" and data = "''token-json''"
            and v = demo_token,
          THEN conjunct2, THEN conjunct2, THEN conjunct2, THEN conjunct1]])
       (simp add: g demo_token_not_null)
  have G': "\<exists>text. detectAndDecode demo_env () = Inr (text, True)
              \<and> json_loads demo_env text = Inr demo_token"
    by (rule mp [OF T [where env = demo_env and img = "()" and w = demo_token,
          THEN conjunct2, THEN conjunct2, THEN conjunct2, THEN conjunct2, THEN conjunct1] G])
  have I: "student_app no_id_env demo_db (Some ()) demo_form
       = \<lparr>r_banner = None, r_outcome = Unreadable, r_db = demo_db\<rparr>"
    by (rule mp [OF T [where env = no_id_env and img = "()"
            and kvs = "[(''subject'', JStr ''Mathematics'')]",
          THEN conjunct2, THEN conjunct2, THEN conjunct2, THEN conjunct2, THEN conjunct2,
          THEN conjunct2]])
       (simp add: i)
  show ?thesis
    using Y Y' A A' B B' G G' I by simp
qed

text \<open>
  The text \<^verbatim>\<open>null\<close> is valid JSON; \<^verbatim>\<open>json.loads\<close> returns \<^verbatim>\<open>None\<close> for it, and so does
  \<^verbatim>\<open>read_qr_code\<close>.
\<close>

lemma read_qr_code_json_null: "read_qr_code null_env () = None"
  by (simp add: read_qr_code_def null_env_def demo_env_def)

section \<open>RedemptionEngine: two sessions\<close>

text \<open>
  C7 as stated fails: two sessions submit the sample claimant for the sample token, both
  run the duplicate query before either inserts. Both are accepted and the table holds
  two records with the same claimant, subject, period and date.
\<close>

theorem race_two_accepted:
  "fst (interleaved demo_env demo_form second_env demo_form demo_db demo_token) = Accepted (Fin 0)
   \<and> fst (snd (interleaved demo_env demo_form second_env demo_form demo_db demo_token))
       = Accepted (Fin 0)
   \<and> map (\<lambda>r. (a_id r, a_student_name r, a_subject r, a_period r, date_of (a_timestamp r)))
        (attendance (snd (snd (interleaved demo_env demo_form second_env demo_form demo_db
                                 demo_token))))
       = [(1, ''Asha Rao'', ''Mathematics'', ''Period 1'', 738886),
          (2, ''Asha Rao'', ''Mathematics'', ''Period 1'', 738886)]"
proof -
  have c: "count_existing (attendance demo_db) n s p t = 0" for n s p t
    by (simp add: count_existing_def demo_db_def)
  have k: "submit_check demo_env demo_db demo_token demo_form = Inr (Near (Fin 0))"
    "submit_check second_env demo_db demo_token demo_form = Inr (Near (Fin 0))"
    unfolding demo_payload
    by (simp_all add: submit_check_payload c sample_arith demo_distance ebind_def)
  show ?thesis
    unfolding interleaved_def k Let_def
    by (simp add: submit_finish_def demo_payload submit_commit_payload attendance_row_def
        demo_filled demo_db_def demo_env_def second_env_def)
qed

text \<open>
  C7, as the code has it. The insert has no uniqueness constraint: for a token in the
  wire format it appends the record whatever the table holds. Duplicates are suppressed
  by the query before the insert: a submission made once a record with the same name,
  subject, period and date has been committed is answered "already marked" and writes
  nothing.
\<close>

theorem duplicates_suppressed_by_precheck:
  "submit_commit env d (qr_payload k subj per lat lon ca ea) f =
     Inr (d\<lparr>attendance := attendance d @
               [attendance_row env d f subj per (PReal lat) (PReal lon)],
            attendance_seq := Suc (attendance_seq d)\<rparr>)
   \<and> (strip (student_name f2) = strip (student_name f)
        \<and> date_of (now_today env2) = date_of (now_stamp env)
      \<longrightarrow> submit env2
            (d\<lparr>attendance := attendance d @
                  [attendance_row env d f subj per (PReal lat) (PReal lon)],
               attendance_seq := Suc (attendance_seq d)\<rparr>)
            (qr_payload k2 subj per lat2 lon2 ca2 ea2) f2
          = (AlreadyMarked,
             d\<lparr>attendance := attendance d @
                  [attendance_row env d f subj per (PReal lat) (PReal lon)],
               attendance_seq := Suc (attendance_seq d)\<rparr>))"
proof -
  have "strip (student_name f2) = strip (student_name f)
        \<and> date_of (now_today env2) = date_of (now_stamp env)
      \<longrightarrow> 0 < count_existing
            (attendance d @ [attendance_row env d f subj per (PReal lat) (PReal lon)])
            (strip (student_name f2)) (Some subj) (Some per) (now_today env2)"
    by (simp add: count_existing_def attendance_row_def)
  then show ?thesis
    by (simp add: submit_commit_payload submit_payload_dup)
qed

text \<open>
  C7 at concrete inputs: the insert succeeds on a table that already holds the same key;
  a second session submitting after the first has committed is answered "already marked".
\<close>

theorem duplicates_suppressed_by_precheck_witness:
  "submit_commit demo_env marked_db demo_token demo_form =
     Inr (marked_db\<lparr>attendance := attendance marked_db @
               [attendance_row demo_env marked_db demo_form ''Mathematics'' ''Period 1''
                  (PReal (Fin anchor_lat)) (PReal (Fin anchor_lon))],
            attendance_seq := Suc (attendance_seq marked_db)\<rparr>)
   \<and> submit second_env
        (demo_db\<lparr>attendance := attendance demo_db @
               [attendance_row demo_env demo_db demo_form ''Mathematics'' ''Period 1''
                  (PReal (Fin anchor_lat)) (PReal (Fin anchor_lon))],
            attendance_seq := Suc (attendance_seq demo_db)\<rparr>) demo_token demo_form
       = (AlreadyMarked,
          demo_db\<lparr>attendance := attendance demo_db @
               [attendance_row demo_env demo_db demo_form ''Mathematics'' ''Period 1''
                  (PReal (Fin anchor_lat)) (PReal (Fin anchor_lon))],
            attendance_seq := Suc (attendance_seq demo_db)\<rparr>)"
proof -
  have t: "date_of (now_today second_env) = date_of (now_stamp demo_env)"
    by (simp add: second_env_def demo_env_def)
  show ?thesis
    using duplicates_suppressed_by_precheck [of demo_env marked_db "''qr-1''" "''Mathematics''"
        "''Period 1''" "Fin anchor_lat" "Fin anchor_lon" "''2024-01-01T10:00:00''"
        "''2024-01-01T10:30:00''" demo_form demo_form second_env]
      duplicates_suppressed_by_precheck [of demo_env demo_db "''qr-1''" "''Mathematics''"
        "''Period 1''" "Fin anchor_lat" "Fin anchor_lon" "''2024-01-01T10:00:00''"
        "''2024-01-01T10:30:00''" demo_form demo_form second_env "''qr-1''"
        "Fin anchor_lat" "Fin anchor_lon" "''2024-01-01T10:00:00''" "''2024-01-01T10:30:00''"]
      t
    by (simp add: demo_payload)
qed

end
